theory Spec2Isabelle
  imports Complex_Main "HOL-Library.AList" "HOL-Library.Log_Nat"
begin

section \<open>PyPTZ: camera facades over SUNAPI, VAPIX and ONVIF\<close>

text \<open>
  The development embeds the three facades of \<^verbatim>\<open>src/pyptz\<close>:
  \<^verbatim>\<open>sunapi_control.py\<close> (class SUNAPICamera), \<^verbatim>\<open>vapix_control.py\<close> (class VAPIXCamera)
  and \<^verbatim>\<open>onvif_control.py\<close> (class ONVIFCamera). The three classes share method names,
  so every embedded method carries the suffix of its facade: \<open>_sunapi\<close>, \<open>_vapix\<close>,
  \<open>_onvif\<close>.

  Conventions.
  \<^item> A Python number is the real number it denotes. A \<^verbatim>\<open>float\<close> is a binary64 value:
    the sums and differences of \<^verbatim>\<open>relative_move\<close> are rounded to the nearest double,
    ties to even (\<open>binary64\<close> below), as the interpreter rounds them. Infinities and
    NaN are outside the model; no stored result of \<^verbatim>\<open>relative_move\<close> can overflow,
    since one operand of each is a constant of at most 360, and an overflowing sum is
    only compared with a finite bound, which it exceeds with or without a bound on
    the exponent.
  \<^item> A Python \<^verbatim>\<open>str\<close> is a \<open>string\<close>; its characters are 8-bit, so white space outside
    ASCII is outside the model.
  \<^item> An optional argument (\<^verbatim>\<open>None\<close> or a number) is an \<open>option\<close>.
  \<^item> What lies outside the repository (the HTTP transport \<^verbatim>\<open>requests.get\<close>, the markup
    reader \<^verbatim>\<open>BeautifulSoup(..).get_text()\<close>, the builtin \<^verbatim>\<open>float\<close>, the SOAP service
    object) is a parameter of the model: the theorems hold for every transport, every
    markup reader, every number parser and every device.
\<close>

subsection \<open>Values, requests, responses, outcomes\<close>

datatype pyval = PyNone | PyBool bool | PyNum real | PyStr string

type_synonym payload = "(string \<times> pyval) list"

text \<open>The arguments of one call of \<^verbatim>\<open>requests.get(url, auth=HTTPDigestAuth(user, password), params=...)\<close>.\<close>

record request =
  req_url :: string
  req_user :: string
  req_password :: string
  req_params :: payload

text \<open>The two attributes of a \<^verbatim>\<open>requests.Response\<close> that the code reads.\<close>

record response =
  status_code :: int
  resp_text :: string

datatype error =
    Exception string
  | IndexError
  | ValueError
  | TransportError string

text \<open>
  How a call ends: it returns a value, it raises, or it ends the process
  (\<^verbatim>\<open>exit(n)\<close>).
\<close>

datatype 'a outcome = Return 'a | Raise error | Exit int

text \<open>
  The observable effects of the HTTP facades: the requests handed to the transport, in
  order, and the lines printed.
\<close>

record world =
  sent :: "request list"
  printed :: "string list"

text \<open>
  The collaborators. \<open>http_get\<close> answers a request, possibly depending on the requests
  made before, or raises an exception of the transport (\<open>Inl\<close> with its message); \<open>get_text\<close> is the text of a markup document; \<open>py_float\<close> is the
  builtin \<^verbatim>\<open>float\<close> on strings, \<open>None\<close> where it raises ValueError.
\<close>

record env =
  http_get :: "request list \<Rightarrow> request \<Rightarrow> string + response"
  get_text :: "string \<Rightarrow> string"
  py_float :: "string \<Rightarrow> real option"

record camera =
  username :: string
  password :: string
  url :: string

subsection \<open>Floating point\<close>

text \<open>
  The binade of a positive real: \<open>exponent x\<close> is the integer \<open>e\<close> with
  \<open>2\<^sup>e \<le> x < 2\<^sup>e\<^sup>+\<^sup>1\<close>, read off the bit length of \<open>\<lfloor>x\<rfloor>\<close> or of \<open>\<lceil>1 / x\<rceil> - 1\<close>.
\<close>

definition exponent :: "real \<Rightarrow> int" where
  "exponent x = (if 1 \<le> x then bitlen \<lfloor>x\<rfloor> - 1 else - bitlen (\<lceil>1 / x\<rceil> - 1))"

text \<open>Rounding to the nearest integer, a tie to the even one.\<close>

definition round_even :: "real \<Rightarrow> int" where
  "round_even y =
     (let f = \<lfloor>y\<rfloor>; r = y - of_int f
      in if r < 1 / 2 then f else if 1 / 2 < r then f + 1 else if even f then f else f + 1)"

text \<open>
  The double nearest to a real: 53 significant bits, so the quantum of the binade
  \<open>e\<close> is \<open>2\<^sup>e\<^sup>-\<^sup>5\<^sup>2\<close>. The exponent is not bounded: a sum or difference of two doubles
  below the normal range is a double itself, and overflow is discussed above.
  The Python expressions \<^verbatim>\<open>a + b\<close> and \<^verbatim>\<open>a - b\<close> on floats are \<open>binary64 (a + b)\<close> and
  \<open>binary64 (a - b)\<close>.
\<close>

definition binary64 :: "real \<Rightarrow> real" where
  "binary64 x =
     (if x = 0 then 0
      else let u = 2 powi (exponent \<bar>x\<bar> - 52)
           in sgn x * of_int (round_even (\<bar>x\<bar> / u)) * u)"

subsection \<open>String primitives\<close>

text \<open>\<^verbatim>\<open>str.isspace\<close> on an ASCII character.\<close>

definition is_space :: "char \<Rightarrow> bool" where
  "is_space c \<longleftrightarrow> c \<in> {CHR 0x09, CHR 0x0A, CHR 0x0B, CHR 0x0C, CHR 0x0D,
                      CHR 0x1C, CHR 0x1D, CHR 0x1E, CHR 0x1F, CHR '' ''}"

text \<open>\<^verbatim>\<open>s.split()\<close>: the maximal runs of characters that are not white space.\<close>

fun split_ws :: "string \<Rightarrow> string \<Rightarrow> string list" where
  "split_ws cur [] = (if cur = [] then [] else [cur])"
| "split_ws cur (c # cs) =
     (if is_space c then (if cur = [] then split_ws [] cs else cur # split_ws [] cs)
      else split_ws (cur @ [c]) cs)"

definition split :: "string \<Rightarrow> string list" where
  "split s = split_ws [] s"

text \<open>\<^verbatim>\<open>s.split(sep)\<close> for a separator of one character.\<close>

fun split_at :: "char \<Rightarrow> string \<Rightarrow> string \<Rightarrow> string list" where
  "split_at sep cur [] = [cur]"
| "split_at sep cur (c # cs) =
     (if c = sep then cur # split_at sep [] cs else split_at sep (cur @ [c]) cs)"

definition split_sep :: "char \<Rightarrow> string \<Rightarrow> string list" where
  "split_sep sep s = split_at sep [] s"

text \<open>\<^verbatim>\<open>xs[i]\<close> for a non-negative index: IndexError out of range.\<close>

fun index :: "'a list \<Rightarrow> nat \<Rightarrow> error + 'a" where
  "index [] i = Inl IndexError"
| "index (x # xs) 0 = Inr x"
| "index (x # xs) (Suc i) = index xs i"

subsection \<open>SUNAPICamera\<close>

text \<open>\<^verbatim>\<open>SUNAPICamera.__init__\<close>\<close>

definition init_sunapi :: "string \<Rightarrow> string \<Rightarrow> string \<Rightarrow> camera" where
  "init_sunapi ip user pw =
     \<lparr>username = user, password = pw, url = ''http://'' @ ip @ ''/stw-cgi/''\<rparr>"

text \<open>
  \<^verbatim>\<open>SUNAPICamera.__cmd\<close>: one exchange. A status other than 200 and 204 prints the text
  of the reply; 401 then ends the process.
\<close>

definition cmd_sunapi :: "env \<Rightarrow> camera \<Rightarrow> string \<Rightarrow> payload \<Rightarrow> world \<Rightarrow> response outcome \<times> world" where
  "cmd_sunapi E self cgi payload w =
     (let rq = \<lparr>req_url = url self @ cgi, req_user = username self,
                req_password = password self, req_params = payload\<rparr>;
          w1 = w\<lparr>sent := sent w @ [rq]\<rparr>
      in case http_get E (sent w) rq of
           Inl m \<Rightarrow> (Raise (TransportError m), w1)
         | Inr response \<Rightarrow>
             if status_code response \<noteq> 200 \<and> status_code response \<noteq> 204 then
               (let w2 = w1\<lparr>printed := printed w1 @ [''%s '' @ get_text E (resp_text response)]\<rparr>
                in if status_code response = 401 then (Exit 1, w2)
                   else (Return response, w2))
             else (Return response, w1))"

text \<open>
  The expression \<^verbatim>\<open>float(response.text.split()[i].split('=')[1])\<close> of
  \<^verbatim>\<open>get_ptz_status\<close>.
\<close>

definition status_field :: "env \<Rightarrow> string \<Rightarrow> nat \<Rightarrow> error + real" where
  "status_field E txt i =
     (case index (split txt) i of
        Inl e \<Rightarrow> Inl e
      | Inr kv \<Rightarrow>
          (case index (split_sep CHR ''='' kv) 1 of
             Inl e \<Rightarrow> Inl e
           | Inr s \<Rightarrow> (case py_float E s of None \<Rightarrow> Inl ValueError | Some x \<Rightarrow> Inr x)))"

text \<open>
  \<^verbatim>\<open>SUNAPICamera.get_ptz_status\<close>. The test of line 52 is written in exact arithmetic:
  on a reading that is a double it has the outcome of the rounded one, since the
  difference \<^verbatim>\<open>360 - current_pan\<close> is exact for a reading between 180 and 720 and at
  least 180 elsewhere, and no double and no such difference lies between 0.02 and
  the double nearest to it.
\<close>

definition get_ptz_status_sunapi ::
  "env \<Rightarrow> camera \<Rightarrow> world \<Rightarrow> (real \<times> real \<times> real \<times> real) outcome \<times> world" where
  "get_ptz_status_sunapi E self w =
     (case cmd_sunapi E self ''ptzcontrol.cgi''
             [(''msubmenu'', PyStr ''query''), (''action'', PyStr ''view''),
              (''Query'', PyStr ''Pan,Tilt,Zoom'')] w of
        (Raise e, w1) \<Rightarrow> (Raise e, w1)
      | (Exit n, w1) \<Rightarrow> (Exit n, w1)
      | (Return response, w1) \<Rightarrow>
          (case status_field E (resp_text response) 0 of
             Inl e \<Rightarrow> (Raise e, w1)
           | Inr current_pan \<Rightarrow>
          (case status_field E (resp_text response) 1 of
             Inl e \<Rightarrow> (Raise e, w1)
           | Inr current_tilt \<Rightarrow>
          (case status_field E (resp_text response) 2 of
             Inl e \<Rightarrow> (Raise e, w1)
           | Inr current_zoom \<Rightarrow>
          (case status_field E (resp_text response) 3 of
             Inl e \<Rightarrow> (Raise e, w1)
           | Inr current_zoom_pulse \<Rightarrow>
               (Return
                  (if \<bar>360 - current_pan\<bar> < 0.02 \<or> current_pan < 0.02 then 0 else current_pan,
                   current_tilt, current_zoom, current_zoom_pulse), w1))))))"

text \<open>
  The three clamping blocks of \<^verbatim>\<open>SUNAPICamera.relative_move\<close> (lines 107-119, 121-133
  and 135-147), each a function of the current reading and the requested delta. The
  sums that decide the branch and the differences that are stored are the rounded
  ones; \<^verbatim>\<open>abs\<close> and the comparisons are exact on doubles.
\<close>

definition clamp_pan :: "real \<Rightarrow> real option \<Rightarrow> real option" where
  "clamp_pan current_pan pan =
     (case pan of
        None \<Rightarrow> None
      | Some p \<Rightarrow>
          if binary64 (current_pan + p) > 360 then Some (binary64 (p - 360))
          else if binary64 (current_pan + p) < 0 then Some (binary64 (360 + p))
          else Some p)"

definition clamp_tilt :: "real \<Rightarrow> real option \<Rightarrow> real option" where
  "clamp_tilt current_tilt tilt =
     (case tilt of
        None \<Rightarrow> None
      | Some t \<Rightarrow>
          if 90 < binary64 (current_tilt + t) then Some (binary64 (90 - current_tilt))
          else if binary64 (current_tilt + t) < - 20 then Some (binary64 (- 20 + \<bar>current_tilt\<bar>))
          else Some t)"

definition clamp_zoom :: "real \<Rightarrow> real option \<Rightarrow> real option" where
  "clamp_zoom current_zoom zoom =
     (case zoom of
        None \<Rightarrow> None
      | Some z \<Rightarrow>
          if 40 < binary64 (current_zoom + z) then Some (binary64 (40 - current_zoom))
          else if binary64 (current_zoom + z) < 1 then Some (binary64 (1 - current_zoom))
          else Some z)"

text \<open>A number or \<^verbatim>\<open>None\<close> as a payload value.\<close>

definition num :: "real option \<Rightarrow> pyval" where
  "num x = (case x of None \<Rightarrow> PyNone | Some r \<Rightarrow> PyNum r)"

text \<open>\<^verbatim>\<open>SUNAPICamera.absolute_move\<close>\<close>

definition absolute_move_sunapi ::
  "env \<Rightarrow> camera \<Rightarrow> real option \<Rightarrow> real option \<Rightarrow> real option \<Rightarrow> world \<Rightarrow> response outcome \<times> world" where
  "absolute_move_sunapi E self pan tilt zoom w =
     cmd_sunapi E self ''ptzcontrol.cgi''
       [(''msubmenu'', PyStr ''absolute''), (''action'', PyStr ''control''),
        (''Pan'', num pan), (''Tilt'', num tilt), (''Zoom'', num zoom),
        (''ZoomPulse'', PyNone), (''Channel'', PyNone)] w"

text \<open>\<^verbatim>\<open>SUNAPICamera.relative_move\<close>\<close>

definition relative_move_sunapi ::
  "env \<Rightarrow> camera \<Rightarrow> real option \<Rightarrow> real option \<Rightarrow> real option \<Rightarrow> world \<Rightarrow> response outcome \<times> world" where
  "relative_move_sunapi E self pan tilt zoom w =
     (case get_ptz_status_sunapi E self w of
        (Raise e, w1) \<Rightarrow> (Raise e, w1)
      | (Exit n, w1) \<Rightarrow> (Exit n, w1)
      | (Return (current_pan, current_tilt, current_zoom, current_zoom_pulse), w1) \<Rightarrow>
          (let pan = clamp_pan current_pan pan;
               tilt = clamp_tilt current_tilt tilt;
               zoom = clamp_zoom current_zoom zoom
           in if current_pan \<noteq> 0 then
                cmd_sunapi E self ''ptzcontrol.cgi''
                  [(''msubmenu'', PyStr ''relative''), (''action'', PyStr ''control''),
                   (''Pan'', num pan), (''Tilt'', num tilt), (''Zoom'', num zoom),
                   (''ZoomPulse'', PyNone), (''Channel'', PyNone)] w1
              else
                cmd_sunapi E self ''ptzcontrol.cgi''
                  [(''msubmenu'', PyStr ''absolute''), (''action'', PyStr ''control''),
                   (''Pan'', num pan), (''Tilt'', num tilt), (''Zoom'', num zoom),
                   (''ZoomPulse'', PyNone), (''Channel'', PyNone)] w1))"

text \<open>
  The operations with an enumerated argument. The arguments that are only handed on
  (\<^verbatim>\<open>channel\<close>, \<^verbatim>\<open>pan\<close>, ...) are arbitrary Python values; so is the enumerated one,
  since Python does not enforce the annotation \<^verbatim>\<open>str\<close>. \<^verbatim>\<open>x not in (a, b, None)\<close>
  compares by equality.
\<close>

definition apostrophe :: string where
  "apostrophe = [CHR 0x27]"

definition focus_message :: string where
  "focus_message =
     ''Unauthorized command: Please enter a string from the choices: '' @
     apostrophe @ ''Near'' @ apostrophe @ '', '' @ apostrophe @ ''Far'' @ apostrophe @
     '', or '' @ apostrophe @ ''Stop'' @ apostrophe"

definition swing_message :: string where
  "swing_message =
     ''Unauthorized command: Please enter a string from the choices: '' @
     apostrophe @ ''Pan'' @ apostrophe @ '', '' @ apostrophe @ ''Tilt'' @ apostrophe @
     '', '' @ apostrophe @ ''PanTilt'' @ apostrophe @ '', '' @
     apostrophe @ ''Stop'' @ apostrophe"

definition start_stop_message :: string where
  "start_stop_message =
     ''Unauthorized command: Please enter a string from the choices: '' @
     apostrophe @ ''Start'' @ apostrophe @ '' or '' @ apostrophe @ ''Stop'' @ apostrophe"

text \<open>\<^verbatim>\<open>SUNAPICamera.continuous_move\<close>\<close>

definition continuous_move_sunapi ::
  "env \<Rightarrow> camera \<Rightarrow> pyval \<Rightarrow> pyval \<Rightarrow> pyval \<Rightarrow> pyval \<Rightarrow> pyval \<Rightarrow> world \<Rightarrow> response outcome \<times> world" where
  "continuous_move_sunapi E self normalized_speed pan tilt zoom focus w =
     (if focus \<notin> set [PyStr ''Near'', PyStr ''Far'', PyStr ''Stop'', PyNone] then
        (Raise (Exception focus_message), w)
      else
        cmd_sunapi E self ''ptzcontrol.cgi''
          [(''msubmenu'', PyStr ''continuous''), (''action'', PyStr ''control''),
           (''NormalizedSpeed'', normalized_speed), (''Pan'', pan),
           (''Tilt'', tilt), (''Zoom'', zoom), (''Focus'', focus)] w)"

text \<open>\<^verbatim>\<open>SUNAPICamera.swing_control\<close>\<close>

definition swing_control_sunapi ::
  "env \<Rightarrow> camera \<Rightarrow> pyval \<Rightarrow> pyval \<Rightarrow> world \<Rightarrow> response outcome \<times> world" where
  "swing_control_sunapi E self channel mode w =
     (if mode \<notin> set [PyStr ''Pan'', PyStr ''Tilt'', PyStr ''PanTilt'', PyStr ''Stop'', PyNone] then
        (Raise (Exception swing_message), w)
      else
        cmd_sunapi E self ''ptzcontrol.cgi''
          [(''msubmenu'', PyStr ''swing''), (''action'', PyStr ''control''),
           (''Channel'', channel), (''Mode'', mode)] w)"

text \<open>\<^verbatim>\<open>SUNAPICamera.group_control\<close>\<close>

definition group_control_sunapi ::
  "env \<Rightarrow> camera \<Rightarrow> pyval \<Rightarrow> pyval \<Rightarrow> pyval \<Rightarrow> world \<Rightarrow> response outcome \<times> world" where
  "group_control_sunapi E self channel group' mode w =
     (if mode \<notin> set [PyStr ''Start'', PyStr ''Stop'', PyNone] then
        (Raise (Exception start_stop_message), w)
      else
        cmd_sunapi E self ''ptzcontrol.cgi''
          [(''msubmenu'', PyStr ''group''), (''action'', PyStr ''control''),
           (''Channel'', channel), (''Group'', group'), (''Mode'', mode)] w)"

text \<open>\<^verbatim>\<open>SUNAPICamera.tour_control\<close>\<close>

definition tour_control_sunapi ::
  "env \<Rightarrow> camera \<Rightarrow> pyval \<Rightarrow> pyval \<Rightarrow> pyval \<Rightarrow> world \<Rightarrow> response outcome \<times> world" where
  "tour_control_sunapi E self channel tour mode w =
     (if mode \<notin> set [PyStr ''Start'', PyStr ''Stop'', PyNone] then
        (Raise (Exception start_stop_message), w)
      else
        cmd_sunapi E self ''ptzcontrol.cgi''
          [(''msubmenu'', PyStr ''tour''), (''action'', PyStr ''control''),
           (''Channel'', channel), (''Tour'', tour), (''Mode'', mode)] w)"

text \<open>\<^verbatim>\<open>SUNAPICamera.trace_control\<close>\<close>

definition trace_control_sunapi ::
  "env \<Rightarrow> camera \<Rightarrow> pyval \<Rightarrow> pyval \<Rightarrow> pyval \<Rightarrow> world \<Rightarrow> response outcome \<times> world" where
  "trace_control_sunapi E self channel trace mode w =
     (if mode \<notin> set [PyStr ''Start'', PyStr ''Stop'', PyNone] then
        (Raise (Exception start_stop_message), w)
      else
        cmd_sunapi E self ''ptzcontrol.cgi''
          [(''msubmenu'', PyStr ''trace''), (''action'', PyStr ''control''),
           (''Channel'', channel), (''Trace'', trace), (''Mode'', mode)] w)"

subsection \<open>VAPIXCamera\<close>

text \<open>\<^verbatim>\<open>VAPIXCamera.__init__\<close>\<close>

definition init_vapix :: "string \<Rightarrow> string \<Rightarrow> string \<Rightarrow> camera" where
  "init_vapix ip user pw =
     \<lparr>username = user, password = pw, url = ''http://'' @ ip @ ''/axis-cgi/com/ptz.cgi''\<rparr>"

text \<open>
  \<^verbatim>\<open>dict.update\<close>: an existing key keeps its place and takes the new value, a new key
  goes to the end; that is \<open>AList.update\<close>, entry by entry.
\<close>

definition dict_update :: "payload \<Rightarrow> payload \<Rightarrow> payload" where
  "dict_update results dictionary = foldl (\<lambda>r (k, v). AList.update k v r) results dictionary"

text \<open>\<^verbatim>\<open>VAPIXCamera.__merge\<close>\<close>

definition merge_vapix :: "payload list \<Rightarrow> payload" where
  "merge_vapix args = foldl dict_update [] args"

text \<open>
  \<^verbatim>\<open>VAPIXCamera.__cmd\<close>; \<open>now\<close> is the value of \<^verbatim>\<open>int(time.time())\<close> at the call.
\<close>

definition cmd_vapix :: "env \<Rightarrow> camera \<Rightarrow> int \<Rightarrow> payload \<Rightarrow> world \<Rightarrow> response outcome \<times> world" where
  "cmd_vapix E self now payload w =
     (let args = [(''camera'', PyNum 1), (''html'', PyStr ''no''),
                  (''timestamp'', PyNum (of_int now))];
          rq = \<lparr>req_url = url self, req_user = username self,
                req_password = password self, req_params = merge_vapix [payload, args]\<rparr>;
          w1 = w\<lparr>sent := sent w @ [rq]\<rparr>
      in case http_get E (sent w) rq of
           Inl m \<Rightarrow> (Raise (TransportError m), w1)
         | Inr response \<Rightarrow>
             if status_code response \<noteq> 200 \<and> status_code response \<noteq> 204 then
               (let w2 = w1\<lparr>printed := printed w1 @ [''%s '' @ get_text E (resp_text response)]\<rparr>
                in if status_code response = 401 then (Exit 1, w2)
                   else (Return response, w2))
             else (Return response, w1))"

text \<open>\<^verbatim>\<open>VAPIXCamera.get_ptz_status\<close>\<close>

definition get_ptz_status_vapix ::
  "env \<Rightarrow> camera \<Rightarrow> int \<Rightarrow> world \<Rightarrow> (real \<times> real \<times> real) outcome \<times> world" where
  "get_ptz_status_vapix E self now w =
     (case cmd_vapix E self now [(''query'', PyStr ''position'')] w of
        (Raise e, w1) \<Rightarrow> (Raise e, w1)
      | (Exit n, w1) \<Rightarrow> (Exit n, w1)
      | (Return response, w1) \<Rightarrow>
          (case status_field E (resp_text response) 0 of
             Inl e \<Rightarrow> (Raise e, w1)
           | Inr pan \<Rightarrow>
          (case status_field E (resp_text response) 1 of
             Inl e \<Rightarrow> (Raise e, w1)
           | Inr tilt \<Rightarrow>
          (case status_field E (resp_text response) 2 of
             Inl e \<Rightarrow> (Raise e, w1)
           | Inr zoom \<Rightarrow> (Return (pan, tilt, zoom), w1)))))"

subsection \<open>ONVIFCamera\<close>

text \<open>
  An entry of the list that \<^verbatim>\<open>GetPresets\<close> returns: its \<^verbatim>\<open>Name\<close> (optional in ONVIF,
  so possibly \<^verbatim>\<open>None\<close>) and its \<^verbatim>\<open>token\<close>.
\<close>

record preset =
  Name :: "string option"
  token :: string

text \<open>\<^verbatim>\<open>str(x)\<close> for a string or \<^verbatim>\<open>None\<close>.\<close>

definition str :: "string option \<Rightarrow> string" where
  "str x = (case x of None \<Rightarrow> ''None'' | Some s \<Rightarrow> s)"

text \<open>
  The SOAP service \<^verbatim>\<open>self.__ptz\<close> over a device with states \<open>'d\<close>: every operation
  takes the profile of the request and the device state, and yields a response or a
  fault, and the next device state. \<open>'p\<close> is the type of profiles, \<open>'r\<close> of responses.
\<close>

record ('d, 'p, 'r) ptz_service =
  GetPresets :: "'p \<Rightarrow> 'd \<Rightarrow> (error + preset list) \<times> 'd"
  SetPreset :: "'p \<Rightarrow> string \<Rightarrow> 'd \<Rightarrow> (error + 'r) \<times> 'd"
  RemovePreset :: "'p \<Rightarrow> string \<Rightarrow> 'd \<Rightarrow> (error + 'r) \<times> 'd"
  GotoPreset :: "'p \<Rightarrow> string \<Rightarrow> 'd \<Rightarrow> (error + 'r) \<times> 'd"

text \<open>The attributes \<^verbatim>\<open>self.__ptz\<close> and \<^verbatim>\<open>self.__token\<close>.\<close>

record ('d, 'p, 'r) onvif_camera =
  ptz :: "('d, 'p, 'r) ptz_service"
  profile_token :: 'p

datatype 'p ptz_call =
    Call_GetPresets 'p
  | Call_SetPreset 'p string
  | Call_RemovePreset 'p string
  | Call_GotoPreset 'p string

text \<open>The device and the SOAP calls made so far, in order.\<close>

record ('d, 'p) soap_world =
  device :: 'd
  calls :: "'p ptz_call list"

text \<open>\<^verbatim>\<open>ONVIFCamera.get_preset_complete\<close>\<close>

definition get_preset_complete_onvif ::
  "('d, 'p, 'r) onvif_camera \<Rightarrow> ('d, 'p) soap_world \<Rightarrow> (error + preset list) \<times> ('d, 'p) soap_world" where
  "get_preset_complete_onvif self w =
     (case GetPresets (ptz self) (profile_token self) (device w) of
        (ptz_get_presets, d) \<Rightarrow>
          (ptz_get_presets,
           \<lparr>device = d, calls = calls w @ [Call_GetPresets (profile_token self)]\<rparr>))"

text \<open>
  The loop of \<^verbatim>\<open>ONVIFCamera.set_preset\<close>: \<open>True\<close> when it leaves the method through
  \<^verbatim>\<open>return None\<close>, \<open>False\<close> when it runs to its end.
\<close>

fun set_preset_loop :: "preset list \<Rightarrow> string \<Rightarrow> bool" where
  "set_preset_loop [] preset_name = False"
| "set_preset_loop (p # presets) preset_name =
     (if str (Name p) = preset_name then True else set_preset_loop presets preset_name)"

text \<open>\<^verbatim>\<open>ONVIFCamera.set_preset\<close>; Python's \<^verbatim>\<open>None\<close> is \<open>Inr None\<close>.\<close>

definition set_preset_onvif ::
  "('d, 'p, 'r) onvif_camera \<Rightarrow> string \<Rightarrow> ('d, 'p) soap_world \<Rightarrow> (error + 'r option) \<times> ('d, 'p) soap_world" where
  "set_preset_onvif self preset_name w =
     (case get_preset_complete_onvif self w of
        (Inl e, w1) \<Rightarrow> (Inl e, w1)
      | (Inr presets, w1) \<Rightarrow>
          if set_preset_loop presets preset_name then (Inr None, w1)
          else
            (case SetPreset (ptz self) (profile_token self) preset_name (device w1) of
               (ptz_set_preset, d) \<Rightarrow>
                 (map_sum id Some ptz_set_preset,
                  \<lparr>device = d,
                   calls = calls w1 @ [Call_SetPreset (profile_token self) preset_name]\<rparr>)))"

text \<open>The loop of \<^verbatim>\<open>ONVIFCamera.remove_preset\<close> with the \<^verbatim>\<open>return None\<close> after it.\<close>

fun remove_preset_loop ::
  "('d, 'p, 'r) onvif_camera \<Rightarrow> preset list \<Rightarrow> string \<Rightarrow> ('d, 'p) soap_world \<Rightarrow> (error + 'r option) \<times> ('d, 'p) soap_world" where
  "remove_preset_loop self [] preset_name w = (Inr None, w)"
| "remove_preset_loop self (p # presets) preset_name w =
     (if str (Name p) = preset_name then
        (case RemovePreset (ptz self) (profile_token self) (token p) (device w) of
           (ptz_remove_preset, d) \<Rightarrow>
             (map_sum id Some ptz_remove_preset,
              \<lparr>device = d,
               calls = calls w @ [Call_RemovePreset (profile_token self) (token p)]\<rparr>))
      else remove_preset_loop self presets preset_name w)"

text \<open>\<^verbatim>\<open>ONVIFCamera.remove_preset\<close>\<close>

definition remove_preset_onvif ::
  "('d, 'p, 'r) onvif_camera \<Rightarrow> string \<Rightarrow> ('d, 'p) soap_world \<Rightarrow> (error + 'r option) \<times> ('d, 'p) soap_world" where
  "remove_preset_onvif self preset_name w =
     (case get_preset_complete_onvif self w of
        (Inl e, w1) \<Rightarrow> (Inl e, w1)
      | (Inr presets, w1) \<Rightarrow> remove_preset_loop self presets preset_name w1)"

text \<open>The loop of \<^verbatim>\<open>ONVIFCamera.go_to_preset\<close> with the \<^verbatim>\<open>return None\<close> after it.\<close>

fun go_to_preset_loop ::
  "('d, 'p, 'r) onvif_camera \<Rightarrow> preset list \<Rightarrow> string \<Rightarrow> ('d, 'p) soap_world \<Rightarrow> (error + 'r option) \<times> ('d, 'p) soap_world" where
  "go_to_preset_loop self [] preset_position w = (Inr None, w)"
| "go_to_preset_loop self (p # presets) preset_position w =
     (let str1 = str (Name p)
      in if str1 = preset_position then
           (case GotoPreset (ptz self) (profile_token self) (token p) (device w) of
              (response, d) \<Rightarrow>
                (map_sum id Some response,
                 \<lparr>device = d,
                  calls = calls w @ [Call_GotoPreset (profile_token self) (token p)]\<rparr>))
         else go_to_preset_loop self presets preset_position w)"

text \<open>\<^verbatim>\<open>ONVIFCamera.go_to_preset\<close>\<close>

definition go_to_preset_onvif ::
  "('d, 'p, 'r) onvif_camera \<Rightarrow> string \<Rightarrow> ('d, 'p) soap_world \<Rightarrow> (error + 'r option) \<times> ('d, 'p) soap_world" where
  "go_to_preset_onvif self preset_position w =
     (case get_preset_complete_onvif self w of
        (Inl e, w1) \<Rightarrow> (Inl e, w1)
      | (Inr presets, w1) \<Rightarrow> go_to_preset_loop self presets preset_position w1)"

subsection \<open>Sample collaborators\<close>

text \<open>
  Concrete collaborators, used to run the model on examples. \<open>float_decimal\<close> reads a
  decimal literal \<^verbatim>\<open>[+-]digits[.digits]\<close> as the number it denotes; the other spellings
  that the builtin \<^verbatim>\<open>float\<close> accepts do not occur in the examples.
\<close>

definition digit :: "char \<Rightarrow> nat option" where
  "digit c = map_of (zip ''0123456789'' [0 ..< 10]) c"

fun digits :: "nat \<Rightarrow> string \<Rightarrow> nat option" where
  "digits acc [] = Some acc"
| "digits acc (c # cs) =
     (case digit c of None \<Rightarrow> None | Some d \<Rightarrow> digits (10 * acc + d) cs)"

definition unsigned_decimal :: "string \<Rightarrow> real option" where
  "unsigned_decimal s =
     (case split_sep CHR ''.'' s of
        [i] \<Rightarrow> (if i = [] then None else map_option real (digits 0 i))
      | [i, f] \<Rightarrow>
          (if i = [] \<and> f = [] then None
           else (case digits 0 i of
                   None \<Rightarrow> None
                 | Some a \<Rightarrow>
                     (case digits 0 f of
                        None \<Rightarrow> None
                      | Some b \<Rightarrow> Some (real a + real b / 10 ^ length f))))
      | _ \<Rightarrow> None)"

definition float_decimal :: "string \<Rightarrow> real option" where
  "float_decimal s =
     (case s of
        [] \<Rightarrow> None
      | c # cs \<Rightarrow>
          if c = CHR ''-'' then map_option uminus (unsigned_decimal cs)
          else if c = CHR ''+'' then unsigned_decimal cs
          else unsigned_decimal s)"

text \<open>
  The builtin \<^verbatim>\<open>float\<close> on such a literal is correctly rounded: it yields the double
  nearest to the decimal (for a value in the normal range of binary64, as the readings
  of the examples are).
\<close>

definition float_binary64 :: "string \<Rightarrow> real option" where
  "float_binary64 s = map_option binary64 (float_decimal s)"

text \<open>
  A device that answers every request with the same status code and text. With
  \<open>fixed_reply\<close> the fields are read as exact decimals, which is what \<^verbatim>\<open>float\<close> yields
  for the integers of most examples; with \<open>double_reply\<close> they are read as doubles.
\<close>

definition fixed_reply :: "int \<Rightarrow> string \<Rightarrow> env" where
  "fixed_reply code txt =
     \<lparr>http_get = (\<lambda>history rq. Inr \<lparr>status_code = code, resp_text = txt\<rparr>),
      get_text = (\<lambda>s. s),
      py_float = float_decimal\<rparr>"

definition double_reply :: "int \<Rightarrow> string \<Rightarrow> env" where
  "double_reply code txt =
     \<lparr>http_get = (\<lambda>history rq. Inr \<lparr>status_code = code, resp_text = txt\<rparr>),
      get_text = (\<lambda>s. s),
      py_float = float_binary64\<rparr>"

definition no_effects :: world where
  "no_effects = \<lparr>sent = [], printed = []\<rparr>"

text \<open>
  An ONVIF device that keeps its presets in a list: listing returns the list, a created
  preset goes to its end under a token not yet in use, removal deletes by token.
\<close>

definition list_device :: "(preset list, 'p, string) ptz_service" where
  "list_device =
     \<lparr>GetPresets = (\<lambda>p d. (Inr d, d)),
      SetPreset = (\<lambda>p name d.
        (let tok = replicate (Suc (length (concat (map token d)))) CHR ''t''
         in (Inr tok, d @ [\<lparr>Name = Some name, token = tok\<rparr>]))),
      RemovePreset = (\<lambda>p tok d. (Inr ''removed'', filter (\<lambda>x. token x \<noteq> tok) d)),
      GotoPreset = (\<lambda>p tok d. (Inr ''moved'', d))\<rparr>"

text \<open>
  What the consequences for repeated calls assume of an ONVIF device: listing the
  presets leaves the device as it is, and after a \<^verbatim>\<open>SetPreset\<close> that succeeded the list
  has an entry of the given name.
\<close>

definition keeps_created :: "('d, 'p, 'r) ptz_service \<Rightarrow> bool" where
  "keeps_created svc \<longleftrightarrow>
     (\<forall>tok d. snd (GetPresets svc tok d) = d) \<and>
     (\<forall>tok name d r d'. SetPreset svc tok name d = (Inr r, d') \<longrightarrow>
        (\<exists>presets. GetPresets svc tok d' = (Inr presets, d') \<and>
           (\<exists>q \<in> set presets. Name q = Some name)))"

section \<open>Rounding to binary64\<close>

lemma powi_minus_nonneg: "0 \<le> k \<Longrightarrow> (2::real) powi (- k) = 1 / 2 ^ nat k"
  by (simp add: power_int_minus_divide power_int_nonneg_exp)

lemma exponent_bounds:
  assumes "0 < x"
  shows "2 powi exponent x \<le> x" and "x < 2 powi (exponent x + 1)"
proof -
  have "2 powi exponent x \<le> x \<and> x < 2 powi (exponent x + 1)"
  proof (cases "1 \<le> x")
    case True
    let ?n = "\<lfloor>x\<rfloor>"
    from True have n: "0 < ?n" by simp
    then have b: "1 \<le> bitlen ?n"
      by (simp add: bitlen_alt_def)
    from bitlen_bounds [OF n]
    have lo: "2 ^ nat (bitlen ?n - 1) \<le> ?n" and hi: "?n < 2 ^ nat (bitlen ?n)"
      by simp_all
    have e: "exponent x = bitlen ?n - 1"
      using True by (simp add: exponent_def)
    have "(2::real) ^ nat (bitlen ?n - 1) = of_int (2 ^ nat (bitlen ?n - 1))" by simp
    also from lo have "\<dots> \<le> of_int ?n" by (simp only: of_int_le_iff)
    also have "\<dots> \<le> x" by (rule of_int_floor_le)
    finally have A: "(2::real) ^ nat (bitlen ?n - 1) \<le> x" .
    from hi have "?n + 1 \<le> 2 ^ nat (bitlen ?n)" by simp
    have "x < of_int (?n + 1)" by linarith
    also from \<open>?n + 1 \<le> 2 ^ nat (bitlen ?n)\<close> have "\<dots> \<le> of_int (2 ^ nat (bitlen ?n))"
      by (simp only: of_int_le_iff)
    also have "\<dots> = (2::real) ^ nat (bitlen ?n)" by simp
    finally have B: "x < (2::real) ^ nat (bitlen ?n)" .
    from A B show ?thesis
      using b by (simp add: e power_int_def)
  next
    case False
    with assms have x: "0 < x" "x < 1" by simp_all
    let ?y = "1 / x"
    let ?m = "\<lceil>?y\<rceil> - 1"
    from x have y: "1 < ?y" by simp
    then have m: "0 < ?m" by simp
    then have b: "1 \<le> bitlen ?m"
      by (simp add: bitlen_alt_def)
    from bitlen_bounds [OF m]
    have lo: "2 ^ nat (bitlen ?m - 1) \<le> ?m" and hi: "?m < 2 ^ nat (bitlen ?m)"
      by simp_all
    have e: "exponent x = - bitlen ?m"
      using False by (simp add: exponent_def)
    from hi have "?m + 1 \<le> 2 ^ nat (bitlen ?m)" by simp
    have "?y \<le> of_int (?m + 1)" by simp
    also from \<open>?m + 1 \<le> 2 ^ nat (bitlen ?m)\<close> have "\<dots> \<le> of_int (2 ^ nat (bitlen ?m))"
      by (simp only: of_int_le_iff)
    also have "\<dots> = (2::real) ^ nat (bitlen ?m)" by simp
    finally have "?y \<le> (2::real) ^ nat (bitlen ?m)" .
    with x have 1: "1 / 2 ^ nat (bitlen ?m) \<le> x"
      by (simp add: field_simps)
    have "(2::real) ^ nat (bitlen ?m - 1) = of_int (2 ^ nat (bitlen ?m - 1))" by simp
    also from lo have "\<dots> \<le> of_int ?m" by (simp only: of_int_le_iff)
    also have "\<dots> < ?y" by linarith
    finally have "(2::real) ^ nat (bitlen ?m - 1) < ?y" .
    with x have 2: "x < 1 / 2 ^ nat (bitlen ?m - 1)"
      by (simp add: field_simps)
    have p1: "(2::real) powi (- bitlen ?m) = 1 / 2 ^ nat (bitlen ?m)"
      using b by (simp add: powi_minus_nonneg)
    have "- bitlen ?m + 1 = - (bitlen ?m - 1)" by simp
    then have p2: "(2::real) powi (- bitlen ?m + 1) = 1 / 2 ^ nat (bitlen ?m - 1)"
      using b by (simp only: powi_minus_nonneg)
    from 1 2 show ?thesis
      by (simp only: e p1 p2)
  qed
  then show "2 powi exponent x \<le> x" and "x < 2 powi (exponent x + 1)"
    by simp_all
qed

lemma round_even_cases:
  "round_even y = \<lfloor>y\<rfloor> \<and> y - of_int \<lfloor>y\<rfloor> \<le> 1 / 2 \<or>
   round_even y = \<lfloor>y\<rfloor> + 1 \<and> 1 / 2 \<le> y - of_int \<lfloor>y\<rfloor>"
  by (simp add: round_even_def Let_def)

lemma round_even_error: "\<bar>of_int (round_even y) - y\<bar> \<le> 1 / 2"
  using round_even_cases [of y] by (auto simp: abs_le_iff)

lemma round_even_of_int [simp]: "round_even (of_int n) = n"
  by (simp add: round_even_def)

lemma round_even_ge: "of_int n \<le> y \<Longrightarrow> n \<le> round_even y"
proof -
  assume "of_int n \<le> y"
  then have "n \<le> \<lfloor>y\<rfloor>" by (simp add: le_floor_iff)
  with round_even_cases [of y] show ?thesis by auto
qed

lemma round_even_le: "y \<le> of_int n \<Longrightarrow> round_even y \<le> n"
proof -
  assume y: "y \<le> of_int n"
  show ?thesis
  proof (cases "y = of_int n")
    case True
    then show ?thesis by simp
  next
    case False
    with y have "y < of_int n" by simp
    then have "\<lfloor>y\<rfloor> < n" by (simp add: floor_less_iff)
    with round_even_cases [of y] show ?thesis by auto
  qed
qed

lemma round_even_mono: "a \<le> b \<Longrightarrow> round_even a \<le> round_even b"
proof -
  assume ab: "a \<le> b"
  then have f: "\<lfloor>a\<rfloor> \<le> \<lfloor>b\<rfloor>" by (rule floor_mono)
  show ?thesis
  proof (cases "\<lfloor>a\<rfloor> = \<lfloor>b\<rfloor>")
    case True
    with ab show ?thesis
      by (auto simp add: round_even_def Let_def)
  next
    case False
    with f have "\<lfloor>a\<rfloor> + 1 \<le> \<lfloor>b\<rfloor>" by simp
    with round_even_cases [of a] round_even_cases [of b] show ?thesis by auto
  qed
qed

lemma binary64_0 [simp]: "binary64 0 = 0"
  by (simp add: binary64_def)

lemma binary64_minus: "binary64 (- x) = - binary64 x"
  by (simp add: binary64_def Let_def sgn_minus)

text \<open>For positive \<open>x\<close>: the value, its binade and its quantum.\<close>

lemma binary64_pos:
  assumes "0 < x"
  shows "binary64 x = of_int (round_even (x / 2 powi (exponent x - 52))) * 2 powi (exponent x - 52)"
  using assms by (simp add: binary64_def Let_def)

lemma scaled_bounds:
  assumes "0 < x"
  shows "2 ^ 52 \<le> x / 2 powi (exponent x - 52)" and "x / 2 powi (exponent x - 52) < 2 ^ 53"
proof -
  let ?e = "exponent x"
  have u: "(2::real) powi (?e - 52) = 2 powi ?e / 2 ^ 52"
    by (simp add: power_int_diff)
  have pos: "0 < (2::real) powi ?e" by simp
  from exponent_bounds(1) [OF assms] pos
  show "2 ^ 52 \<le> x / 2 powi (?e - 52)"
    by (simp add: u field_simps)
  have "(2::real) powi (?e + 1) = 2 powi ?e * 2"
    by (simp add: power_int_add)
  with exponent_bounds(2) [OF assms] pos
  show "x / 2 powi (?e - 52) < 2 ^ 53"
    by (simp add: u field_simps)
qed

lemma binary64_binade:
  assumes "0 < x"
  shows "2 powi exponent x \<le> binary64 x" and "binary64 x \<le> 2 powi (exponent x + 1)"
proof -
  let ?e = "exponent x"
  let ?u = "(2::real) powi (?e - 52)"
  have u: "?u = 2 powi ?e / 2 ^ 52"
    by (simp add: power_int_diff)
  have upos: "0 < ?u" by simp
  from scaled_bounds(1) [OF assms] have "real_of_int (2 ^ 52) \<le> x / ?u" by simp
  then have "2 ^ 52 \<le> round_even (x / ?u)" by (rule round_even_ge)
  then have "real_of_int (2 ^ 52) \<le> of_int (round_even (x / ?u))"
    by (simp only: of_int_le_iff)
  then have "2 ^ 52 * ?u \<le> of_int (round_even (x / ?u)) * ?u"
    using upos by simp
  then show "2 powi ?e \<le> binary64 x"
    by (simp add: binary64_pos [OF assms]) (simp add: u)
  from scaled_bounds(2) [OF assms] have "x / ?u \<le> real_of_int (2 ^ 53)" by simp
  then have "round_even (x / ?u) \<le> 2 ^ 53" by (rule round_even_le)
  then have "real_of_int (round_even (x / ?u)) \<le> of_int (2 ^ 53)"
    by (simp only: of_int_le_iff)
  then have "of_int (round_even (x / ?u)) * ?u \<le> 2 ^ 53 * ?u"
    using upos by simp
  moreover have "(2::real) powi (?e + 1) = 2 ^ 53 * ?u"
    by (simp add: u power_int_add)
  ultimately show "binary64 x \<le> 2 powi (?e + 1)"
    by (simp add: binary64_pos [OF assms])
qed

lemma binary64_pos_pos: "0 < x \<Longrightarrow> 0 < binary64 x"
  using binary64_binade(1) [of x] zero_less_power_int [of "2::real" "exponent x"]
  by linarith

lemma binary64_eq_0_iff [simp]: "binary64 x = 0 \<longleftrightarrow> x = 0"
proof (cases x "0::real" rule: linorder_cases)
  case less
  then have "0 < binary64 (- x)" by (simp add: binary64_pos_pos)
  with less show ?thesis by (simp add: binary64_minus)
next
  case equal
  then show ?thesis by simp
next
  case greater
  then have "0 < binary64 x" by (rule binary64_pos_pos)
  with greater show ?thesis by simp
qed

lemma binary64_mono_pos:
  assumes "0 < x" and "x \<le> y"
  shows "binary64 x \<le> binary64 y"
proof -
  from assms have y: "0 < y" by simp
  let ?ex = "exponent x" and ?ey = "exponent y"
  consider "?ex = ?ey" | "?ex < ?ey" | "?ey < ?ex" by linarith
  then show ?thesis
  proof cases
    case 1
    let ?u = "(2::real) powi (?ex - 52)"
    have upos: "0 < ?u" by simp
    from assms(2) upos have "x / ?u \<le> y / ?u"
      by (simp add: divide_right_mono)
    then have "round_even (x / ?u) \<le> round_even (y / ?u)"
      by (rule round_even_mono)
    then have "real_of_int (round_even (x / ?u)) \<le> of_int (round_even (y / ?u))"
      by (simp only: of_int_le_iff)
    then have "of_int (round_even (x / ?u)) * ?u \<le> of_int (round_even (y / ?u)) * ?u"
      using upos by simp
    then show ?thesis
      by (simp add: binary64_pos [OF assms(1)] binary64_pos [OF y] 1 [symmetric])
  next
    case 2
    then have "?ex + 1 \<le> ?ey" by simp
    then have "(2::real) powi (?ex + 1) \<le> 2 powi ?ey"
      by (rule power_int_increasing) simp
    with binary64_binade(2) [OF assms(1)] binary64_binade(1) [OF y]
    show ?thesis by linarith
  next
    case 3
    then have "?ey + 1 \<le> ?ex" by simp
    then have "(2::real) powi (?ey + 1) \<le> 2 powi ?ex"
      by (rule power_int_increasing) simp
    with exponent_bounds(1) [OF assms(1)] exponent_bounds(2) [OF y] assms(2)
    have False by linarith
    then show ?thesis ..
  qed
qed

lemma binary64_mono:
  assumes "x \<le> y"
  shows "binary64 x \<le> binary64 y"
proof -
  consider "0 < x" | "x \<le> 0" "0 \<le> y" | "y < 0" by linarith
  then show ?thesis
  proof cases
    case 1
    then show ?thesis using assms by (rule binary64_mono_pos)
  next
    case 2
    have "binary64 x \<le> 0"
    proof (cases "x = 0")
      case True
      then show ?thesis by simp
    next
      case False
      with 2 have "0 < binary64 (- x)" by (simp add: binary64_pos_pos)
      then show ?thesis by (simp add: binary64_minus)
    qed
    moreover have "0 \<le> binary64 y"
    proof (cases "y = 0")
      case True
      then show ?thesis by simp
    next
      case False
      with 2 have "0 < binary64 y" by (simp add: binary64_pos_pos)
      then show ?thesis by simp
    qed
    ultimately show ?thesis by simp
  next
    case 3
    with assms have "0 < - y" and "- y \<le> - x" by simp_all
    then have "binary64 (- y) \<le> binary64 (- x)" by (rule binary64_mono_pos)
    then show ?thesis by (simp add: binary64_minus)
  qed
qed

text \<open>The rounding error: half a quantum.\<close>

lemma binary64_error_pos:
  assumes "0 < x"
  shows "\<bar>binary64 x - x\<bar> \<le> 2 powi (exponent x - 53)"
proof -
  let ?u = "(2::real) powi (exponent x - 52)"
  have upos: "0 < ?u" by simp
  have "binary64 x - x = (of_int (round_even (x / ?u)) - x / ?u) * ?u"
    using upos by (simp add: binary64_pos [OF assms] algebra_simps)
  then have "\<bar>binary64 x - x\<bar> = \<bar>of_int (round_even (x / ?u)) - x / ?u\<bar> * ?u"
    using upos by (simp add: abs_mult)
  also have "\<dots> \<le> 1 / 2 * ?u"
    using round_even_error [of "x / ?u"] upos by (simp add: mult_right_mono)
  also have "\<dots> = 2 powi (exponent x - 53)"
    by (simp add: power_int_diff)
  finally show ?thesis .
qed

lemma binary64_error:
  assumes "\<bar>x\<bar> < 2 powi k"
  shows "\<bar>binary64 x - x\<bar> \<le> 2 powi (k - 54)"
proof (cases "x = 0")
  case True
  then show ?thesis by simp
next
  case False
  then have pos: "0 < \<bar>x\<bar>" by simp
  have "exponent \<bar>x\<bar> < k"
  proof (rule ccontr)
    assume "\<not> exponent \<bar>x\<bar> < k"
    then have "k \<le> exponent \<bar>x\<bar>" by simp
    then have "(2::real) powi k \<le> 2 powi exponent \<bar>x\<bar>"
      by (rule power_int_increasing) simp
    with exponent_bounds(1) [OF pos] assms show False by linarith
  qed
  then have "exponent \<bar>x\<bar> - 53 \<le> k - 54" by simp
  then have le: "(2::real) powi (exponent \<bar>x\<bar> - 53) \<le> 2 powi (k - 54)"
    by (rule power_int_increasing) simp
  have "\<bar>binary64 x - x\<bar> = \<bar>binary64 \<bar>x\<bar> - \<bar>x\<bar>\<bar>"
    by (cases "0 \<le> x") (simp_all add: binary64_minus abs_if)
  also have "\<dots> \<le> 2 powi (exponent \<bar>x\<bar> - 53)"
    using pos by (rule binary64_error_pos)
  finally show ?thesis using le by linarith
qed

lemma binary64_relative_error: "\<bar>binary64 x - x\<bar> \<le> \<bar>x\<bar> / 2 ^ 53"
proof (cases "x = 0")
  case True
  then show ?thesis by simp
next
  case False
  then have pos: "0 < \<bar>x\<bar>" by simp
  have "\<bar>binary64 x - x\<bar> = \<bar>binary64 \<bar>x\<bar> - \<bar>x\<bar>\<bar>"
    by (cases "0 \<le> x") (simp_all add: binary64_minus abs_if)
  also have "\<dots> \<le> 2 powi (exponent \<bar>x\<bar> - 53)"
    using pos by (rule binary64_error_pos)
  also have "\<dots> = 2 powi exponent \<bar>x\<bar> / 2 ^ 53"
    by (simp add: power_int_diff)
  also have "\<dots> \<le> \<bar>x\<bar> / 2 ^ 53"
    using exponent_bounds(1) [OF pos] by (simp add: divide_right_mono)
  finally show ?thesis .
qed

text \<open>Some doubles.\<close>

lemma binary64_fixed:
  "binary64 360 = 360" "binary64 512 = 512" "binary64 (- 20) = - 20" "binary64 35 = 35"
  "binary64 1 = 1" "binary64 358 = 358" "binary64 90 = 90"
  by code_simp+

section \<open>SUNAPI: relative moves\<close>

subsection \<open>The request that a relative move sends\<close>

lemma cmd_sunapi_sent:
  "sent (snd (cmd_sunapi E self cgi payload w)) =
     sent w @ [\<lparr>req_url = url self @ cgi, req_user = username self,
                req_password = password self, req_params = payload\<rparr>]"
  by (simp add: cmd_sunapi_def Let_def split: sum.splits)

lemma relative_move_sunapi_returned:
  assumes "get_ptz_status_sunapi E self w = (Return (cp, ct, cz, czp), w1)"
  shows "relative_move_sunapi E self pan tilt zoom w =
     cmd_sunapi E self ''ptzcontrol.cgi''
       [(''msubmenu'', PyStr (if cp \<noteq> 0 then ''relative'' else ''absolute'')),
        (''action'', PyStr ''control''),
        (''Pan'', num (clamp_pan cp pan)), (''Tilt'', num (clamp_tilt ct tilt)),
        (''Zoom'', num (clamp_zoom cz zoom)),
        (''ZoomPulse'', PyNone), (''Channel'', PyNone)] w1"
  using assms by (simp add: relative_move_sunapi_def Let_def)

lemma relative_move_sunapi_params:
  assumes "get_ptz_status_sunapi E self w = (Return (cp, ct, cz, czp), w1)"
  shows "req_params (last (sent (snd (relative_move_sunapi E self pan tilt zoom w)))) =
       [(''msubmenu'', PyStr (if cp \<noteq> 0 then ''relative'' else ''absolute'')),
        (''action'', PyStr ''control''),
        (''Pan'', num (clamp_pan cp pan)), (''Tilt'', num (clamp_tilt ct tilt)),
        (''Zoom'', num (clamp_zoom cz zoom)),
        (''ZoomPulse'', PyNone), (''Channel'', PyNone)]"
  by (simp add: relative_move_sunapi_returned [OF assms] cmd_sunapi_sent)

text \<open>
  Status queries, evaluated: the readings are (358, 80, 35), (0.01, 10, 1), (100, 50, 1),
  (1, 0, 1) and, read as doubles, (358, 10.1, 35).
\<close>

lemma status_358:
  "get_ptz_status_sunapi (fixed_reply 200 ''Pan=358 Tilt=80 Zoom=35 ZoomPulse=0'')
      (init_sunapi ''10.0.0.7'' ''admin'' ''secret'') no_effects =
   (Return (358, 80, 35, 0),
    \<lparr>sent = [\<lparr>req_url = ''http://10.0.0.7/stw-cgi/ptzcontrol.cgi'', req_user = ''admin'',
               req_password = ''secret'',
               req_params = [(''msubmenu'', PyStr ''query''), (''action'', PyStr ''view''),
                             (''Query'', PyStr ''Pan,Tilt,Zoom'')]\<rparr>],
     printed = []\<rparr>)"
  by code_simp

lemma status_0:
  "get_ptz_status_sunapi (fixed_reply 200 ''Pan=0.01 Tilt=10 Zoom=1 ZoomPulse=0'')
      (init_sunapi ''10.0.0.7'' ''admin'' ''secret'') no_effects =
   (Return (0, 10, 1, 0),
    \<lparr>sent = [\<lparr>req_url = ''http://10.0.0.7/stw-cgi/ptzcontrol.cgi'', req_user = ''admin'',
               req_password = ''secret'',
               req_params = [(''msubmenu'', PyStr ''query''), (''action'', PyStr ''view''),
                             (''Query'', PyStr ''Pan,Tilt,Zoom'')]\<rparr>],
     printed = []\<rparr>)"
  by code_simp

lemma status_100:
  "get_ptz_status_sunapi (fixed_reply 200 ''Pan=100 Tilt=50 Zoom=1 ZoomPulse=0'')
      (init_sunapi ''10.0.0.7'' ''admin'' ''secret'') no_effects =
   (Return (100, 50, 1, 0),
    \<lparr>sent = [\<lparr>req_url = ''http://10.0.0.7/stw-cgi/ptzcontrol.cgi'', req_user = ''admin'',
               req_password = ''secret'',
               req_params = [(''msubmenu'', PyStr ''query''), (''action'', PyStr ''view''),
                             (''Query'', PyStr ''Pan,Tilt,Zoom'')]\<rparr>],
     printed = []\<rparr>)"
  by code_simp

lemma status_1:
  "get_ptz_status_sunapi (fixed_reply 200 ''Pan=1 Tilt=0 Zoom=1 ZoomPulse=0'')
      (init_sunapi ''10.0.0.7'' ''admin'' ''secret'') no_effects =
   (Return (1, 0, 1, 0),
    \<lparr>sent = [\<lparr>req_url = ''http://10.0.0.7/stw-cgi/ptzcontrol.cgi'', req_user = ''admin'',
               req_password = ''secret'',
               req_params = [(''msubmenu'', PyStr ''query''), (''action'', PyStr ''view''),
                             (''Query'', PyStr ''Pan,Tilt,Zoom'')]\<rparr>],
     printed = []\<rparr>)"
  by code_simp

lemma status_10_1:
  "get_ptz_status_sunapi (double_reply 200 ''Pan=358 Tilt=10.1 Zoom=35 ZoomPulse=0'')
      (init_sunapi ''10.0.0.7'' ''admin'' ''secret'') no_effects =
   (Return (358, binary64 10.1, 35, 0),
    \<lparr>sent = [\<lparr>req_url = ''http://10.0.0.7/stw-cgi/ptzcontrol.cgi'', req_user = ''admin'',
               req_password = ''secret'',
               req_params = [(''msubmenu'', PyStr ''query''), (''action'', PyStr ''view''),
                             (''Query'', PyStr ''Pan,Tilt,Zoom'')]\<rparr>],
     printed = []\<rparr>)"
  by code_simp

text \<open>The clamping blocks at the reading (358, 80, 35).\<close>

lemma clamps_358:
  "clamp_pan 358 (Some 5) = Some (- 355)"
  "clamp_tilt 80 (Some 15) = Some 10"
  "clamp_zoom 35 (Some 10) = Some 5"
  "clamp_tilt 80 (Some (- 120)) = Some 60"
  by code_simp+

subsection \<open>Dispatch\<close>

text \<open>
  C1, as stated, fails: with a current pan of 0 (the reading 0.01, normalised) the move
  goes out under \<^verbatim>\<open>'msubmenu': 'absolute'\<close>, not \<^verbatim>\<open>'relative'\<close>; with a current pan of
  358 it goes out under \<^verbatim>\<open>'relative'\<close>, not \<^verbatim>\<open>'absolute'\<close>.
\<close>

theorem relative_move_dispatch_counterexample:
  "fst (get_ptz_status_sunapi (fixed_reply 200 ''Pan=0.01 Tilt=10 Zoom=1 ZoomPulse=0'')
      (init_sunapi ''10.0.0.7'' ''admin'' ''secret'') no_effects) = Return (0, 10, 1, 0) \<and>
   map_of (req_params (last (sent (snd (relative_move_sunapi
      (fixed_reply 200 ''Pan=0.01 Tilt=10 Zoom=1 ZoomPulse=0'')
      (init_sunapi ''10.0.0.7'' ''admin'' ''secret'') (Some 5) (Some 5) (Some 1) no_effects))))) ''msubmenu'' =
     Some (PyStr ''absolute'') \<and>
   map_of (req_params (last (sent (snd (relative_move_sunapi
      (fixed_reply 200 ''Pan=0.01 Tilt=10 Zoom=1 ZoomPulse=0'')
      (init_sunapi ''10.0.0.7'' ''admin'' ''secret'') (Some 5) (Some 5) (Some 1) no_effects))))) ''msubmenu'' \<noteq>
     Some (PyStr ''relative'') \<and>
   fst (get_ptz_status_sunapi (fixed_reply 200 ''Pan=358 Tilt=80 Zoom=35 ZoomPulse=0'')
      (init_sunapi ''10.0.0.7'' ''admin'' ''secret'') no_effects) = Return (358, 80, 35, 0) \<and>
   map_of (req_params (last (sent (snd (relative_move_sunapi
      (fixed_reply 200 ''Pan=358 Tilt=80 Zoom=35 ZoomPulse=0'')
      (init_sunapi ''10.0.0.7'' ''admin'' ''secret'') (Some 5) (Some 15) (Some 10) no_effects))))) ''msubmenu'' =
     Some (PyStr ''relative'')"
  by (simp add: relative_move_sunapi_params [OF status_0] relative_move_sunapi_params [OF status_358]
        status_0 status_358)

text \<open>
  C1 (amended). Dispatch law of \<^verbatim>\<open>SUNAPICamera.relative_move\<close>: whenever the status
  query returns, with normalised current pan \<open>current_pan\<close>, the call is exactly one
  further exchange on \<^verbatim>\<open>ptzcontrol.cgi\<close>; its payload carries the clamped deltas under
  \<^verbatim>\<open>'msubmenu': 'absolute'\<close> if \<open>current_pan\<close> is 0 and under \<^verbatim>\<open>'msubmenu': 'relative'\<close>
  otherwise.
\<close>

theorem relative_move_dispatch:
  assumes "get_ptz_status_sunapi E self w = (Return (current_pan, current_tilt, current_zoom, zp), w1)"
  shows "relative_move_sunapi E self pan tilt zoom w =
     cmd_sunapi E self ''ptzcontrol.cgi''
       [(''msubmenu'', PyStr (if current_pan = 0 then ''absolute'' else ''relative'')),
        (''action'', PyStr ''control''),
        (''Pan'', num (clamp_pan current_pan pan)),
        (''Tilt'', num (clamp_tilt current_tilt tilt)),
        (''Zoom'', num (clamp_zoom current_zoom zoom)),
        (''ZoomPulse'', PyNone), (''Channel'', PyNone)] w1 \<and>
   sent (snd (relative_move_sunapi E self pan tilt zoom w)) =
     sent w1 @
     [\<lparr>req_url = url self @ ''ptzcontrol.cgi'', req_user = username self,
       req_password = password self,
       req_params =
         [(''msubmenu'', PyStr (if current_pan = 0 then ''absolute'' else ''relative'')),
          (''action'', PyStr ''control''),
          (''Pan'', num (clamp_pan current_pan pan)),
          (''Tilt'', num (clamp_tilt current_tilt tilt)),
          (''Zoom'', num (clamp_zoom current_zoom zoom)),
          (''ZoomPulse'', PyNone), (''Channel'', PyNone)]\<rparr>]"
  by (simp add: relative_move_sunapi_returned [OF assms] cmd_sunapi_sent)

theorem relative_move_dispatch_witness:
  "sent (snd (relative_move_sunapi (fixed_reply 200 ''Pan=358 Tilt=80 Zoom=35 ZoomPulse=0'')
      (init_sunapi ''10.0.0.7'' ''admin'' ''secret'') (Some 5) (Some 15) (Some 10) no_effects)) =
     [\<lparr>req_url = ''http://10.0.0.7/stw-cgi/ptzcontrol.cgi'', req_user = ''admin'',
       req_password = ''secret'',
       req_params = [(''msubmenu'', PyStr ''query''), (''action'', PyStr ''view''),
                     (''Query'', PyStr ''Pan,Tilt,Zoom'')]\<rparr>,
      \<lparr>req_url = ''http://10.0.0.7/stw-cgi/ptzcontrol.cgi'', req_user = ''admin'',
       req_password = ''secret'',
       req_params = [(''msubmenu'', PyStr ''relative''), (''action'', PyStr ''control''),
                     (''Pan'', PyNum (- 355)), (''Tilt'', PyNum 10), (''Zoom'', PyNum 5),
                     (''ZoomPulse'', PyNone), (''Channel'', PyNone)]\<rparr>]"
  using relative_move_dispatch
    [OF status_358, where pan = "Some 5" and tilt = "Some 15" and zoom = "Some 10", THEN conjunct2]
  by (simp add: init_sunapi_def clamps_358 num_def)

subsection \<open>Pan\<close>

text \<open>
  C2, as stated, fails: from a current pan of 100, a requested delta of 1000 is sent as
  640, and the projected pan 740 lies outside [0, 360).
\<close>

theorem pan_projection_counterexample:
  "fst (get_ptz_status_sunapi (fixed_reply 200 ''Pan=100 Tilt=50 Zoom=1 ZoomPulse=0'')
      (init_sunapi ''10.0.0.7'' ''admin'' ''secret'') no_effects) = Return (100, 50, 1, 0) \<and>
   (0.02 \<le> (100::real) \<and> (100::real) \<le> 359.98) \<and>
   map_of (req_params (last (sent (snd (relative_move_sunapi
      (fixed_reply 200 ''Pan=100 Tilt=50 Zoom=1 ZoomPulse=0'')
      (init_sunapi ''10.0.0.7'' ''admin'' ''secret'') (Some 1000) None None no_effects))))) ''Pan'' =
     Some (PyNum 640) \<and>
   \<not> (0 \<le> (100::real) + 640 \<and> (100::real) + 640 < 360)"
proof -
  have "clamp_pan 100 (Some 1000) = Some 640"
    by code_simp
  then show ?thesis
    by (simp add: relative_move_sunapi_params [OF status_100] status_100 num_def)
qed

text \<open>
  C2 (amended). For a current pan \<open>p\<close> in [0.02, 359.98] (a double, as every reading
  is) and a requested pan delta \<open>d\<close> within one turn of the circle, that is with
  \<open>- 360 \<le> p + d \<le> 720\<close>, the pan delta \<open>c\<close> that \<^verbatim>\<open>relative_move\<close> sends projects to
  \<open>0 \<le> p + c \<le> 360 + 2\<^sup>-\<^sup>4\<^sup>5\<close>. The projection is never negative; it can be 360 itself
  and, by the rounding of the wrapped delta, marginally more.
\<close>

theorem pan_projection:
  assumes "get_ptz_status_sunapi E self w = (Return (p, t, z, zp), w1)"
    and "0.02 \<le> p" and "p \<le> 359.98" and "binary64 p = p"
    and "- 360 \<le> p + d" and "p + d \<le> 720"
  shows "\<exists>c. map_of (req_params (last (sent (snd (relative_move_sunapi E self (Some d) tilt zoom w))))) ''Pan'' =
            Some (PyNum c) \<and>
          0 \<le> p + c \<and> p + c \<le> 360 + 1 / 2 ^ 45"
proof -
  let ?c = "if binary64 (p + d) > 360 then binary64 (d - 360)
            else if binary64 (p + d) < 0 then binary64 (360 + d) else d"
  have sent: "map_of (req_params (last (sent (snd (relative_move_sunapi E self (Some d) tilt zoom w))))) ''Pan'' =
      Some (PyNum ?c)"
    by (simp add: relative_move_sunapi_params [OF assms(1)] clamp_pan_def num_def)
  have double: "binary64 (- p) = - p"
    using assms(4) by (simp add: binary64_minus)
  have small: "\<bar>binary64 x - x\<bar> \<le> 1 / 2 ^ 45" if "\<bar>x\<bar> < 512" for x
  proof -
    from that have "\<bar>x\<bar> < 2 powi 9" by simp
    then have "\<bar>binary64 x - x\<bar> \<le> 2 powi (9 - 54)" by (rule binary64_error)
    then show ?thesis by (simp add: power_int_minus_divide)
  qed
  have bounds: "0 \<le> p + ?c \<and> p + ?c \<le> 360 + 1 / 2 ^ 45"
  proof (cases "binary64 (p + d) > 360")
    case True
    have above: "360 < p + d"
    proof (rule ccontr)
      assume "\<not> 360 < p + d"
      then have "p + d \<le> 360" by simp
      then have "binary64 (p + d) \<le> binary64 360" by (rule binary64_mono)
      with True show False by (simp add: binary64_fixed)
    qed
    then have "- p \<le> d - 360" by simp
    then have "binary64 (- p) \<le> binary64 (d - 360)" by (rule binary64_mono)
    then have lower: "0 \<le> p + binary64 (d - 360)" by (simp add: double)
    from above assms(2,3,6) have "\<bar>d - 360\<bar> < 512" by (simp add: abs_less_iff)
    then have "\<bar>binary64 (d - 360) - (d - 360)\<bar> \<le> 1 / 2 ^ 45" by (rule small)
    with assms(6) have "p + binary64 (d - 360) \<le> 360 + 1 / 2 ^ 45"
      by linarith
    with lower True show ?thesis by simp
  next
    case False
    note not_above = this
    show ?thesis
    proof (cases "binary64 (p + d) < 0")
      case True
      have below: "p + d < 0"
      proof (rule ccontr)
        assume "\<not> p + d < 0"
        then have "0 \<le> p + d" by simp
        then have "binary64 0 \<le> binary64 (p + d)" by (rule binary64_mono)
        with True show False by simp
      qed
      from assms(5) have "- p \<le> 360 + d" by simp
      then have "binary64 (- p) \<le> binary64 (360 + d)" by (rule binary64_mono)
      then have lower: "0 \<le> p + binary64 (360 + d)" by (simp add: double)
      from below assms(2,3,5) have "\<bar>360 + d\<bar> < 512" by (simp add: abs_less_iff)
      then have "\<bar>binary64 (360 + d) - (360 + d)\<bar> \<le> 1 / 2 ^ 45" by (rule small)
      with below have "p + binary64 (360 + d) \<le> 360 + 1 / 2 ^ 45"
        by linarith
      with lower True not_above show ?thesis by simp
    next
      case False
      have lower: "0 \<le> p + d"
      proof (rule ccontr)
        assume "\<not> 0 \<le> p + d"
        then have neg: "p + d < 0" by simp
        then have "p + d \<le> 0" by simp
        then have "binary64 (p + d) \<le> binary64 0" by (rule binary64_mono)
        then have "binary64 (p + d) \<le> 0" by simp
        moreover from neg have "binary64 (p + d) \<noteq> 0" by simp
        ultimately show False using False by simp
      qed
      have "p + d < 512"
      proof (rule ccontr)
        assume "\<not> p + d < 512"
        then have "512 \<le> p + d" by simp
        then have "binary64 512 \<le> binary64 (p + d)" by (rule binary64_mono)
        with not_above show False by (simp add: binary64_fixed)
      qed
      with lower have "\<bar>p + d\<bar> < 512" by simp
      then have "\<bar>binary64 (p + d) - (p + d)\<bar> \<le> 1 / 2 ^ 45" by (rule small)
      with not_above have "p + d \<le> 360 + 1 / 2 ^ 45"
        by linarith
      with lower False not_above show ?thesis by simp
    qed
  qed
  from sent bounds show ?thesis by blast
qed

text \<open>
  The witness is the reading 1 with the request \<open>- (1 + 2\<^sup>-\<^sup>5\<^sup>2)\<close>, the double next below -1:
  the sum is negative, the wrapped delta \<open>360 + d\<close> rounds to 359, and the projection
  is 360.
\<close>

theorem pan_projection_witness:
  "(0.02 \<le> (1::real) \<and> (1::real) \<le> 359.98 \<and> binary64 1 = 1 \<and>
    - 360 \<le> 1 + (- (1 + 1 / 2 ^ 52) :: real) \<and> 1 + (- (1 + 1 / 2 ^ 52) :: real) \<le> 720) \<and>
   binary64 (- (1 + 1 / 2 ^ 52)) = - (1 + 1 / 2 ^ 52) \<and>
   map_of (req_params (last (sent (snd (relative_move_sunapi
      (fixed_reply 200 ''Pan=1 Tilt=0 Zoom=1 ZoomPulse=0'')
      (init_sunapi ''10.0.0.7'' ''admin'' ''secret'') (Some (- (1 + 1 / 2 ^ 52))) None None no_effects))))) ''Pan'' =
     Some (PyNum 359) \<and>
   (0 \<le> (1::real) + 359 \<and> (1::real) + 359 \<le> 360 + 1 / 2 ^ 45)"
proof -
  define d :: real where "d = - (1 + 1 / 2 ^ 52)"
  have clamp: "clamp_pan 1 (Some d) = Some 359"
    unfolding d_def by code_simp
  have double: "binary64 d = d"
    unfolding d_def by code_simp
  have range: "- 360 \<le> 1 + d" "1 + d \<le> 720"
    unfolding d_def by simp_all
  from pan_projection [OF status_1, where d = d and tilt = None and zoom = None] range double
  show ?thesis
    unfolding d_def [symmetric]
    by (simp add: relative_move_sunapi_params [OF status_1] clamp binary64_fixed num_def)
qed

text \<open>
  C5, as stated, fails in the last bit: from a current pan of 358, the requested delta
  5.1 (the double nearest to it) is sent as the double nearest to \<open>d - 360\<close>, which is
  none of \<open>d\<close>, \<open>d - 360\<close> and \<open>d + 360\<close>.
\<close>

theorem pan_circular_counterexample:
  "fst (get_ptz_status_sunapi (fixed_reply 200 ''Pan=358 Tilt=80 Zoom=35 ZoomPulse=0'')
      (init_sunapi ''10.0.0.7'' ''admin'' ''secret'') no_effects) = Return (358, 80, 35, 0) \<and>
   map_of (req_params (last (sent (snd (relative_move_sunapi
      (fixed_reply 200 ''Pan=358 Tilt=80 Zoom=35 ZoomPulse=0'')
      (init_sunapi ''10.0.0.7'' ''admin'' ''secret'') (Some (binary64 5.1)) None None no_effects))))) ''Pan'' =
     Some (PyNum (binary64 (binary64 5.1 - 360))) \<and>
   binary64 (binary64 5.1 - 360) \<noteq> binary64 5.1 \<and>
   binary64 (binary64 5.1 - 360) \<noteq> binary64 5.1 - 360 \<and>
   binary64 (binary64 5.1 - 360) \<noteq> binary64 5.1 + 360"
proof -
  have clamp: "clamp_pan 358 (Some (binary64 5.1)) = Some (binary64 (binary64 5.1 - 360))"
    by code_simp
  have differ: "binary64 (binary64 5.1 - 360) \<noteq> binary64 5.1"
    "binary64 (binary64 5.1 - 360) \<noteq> binary64 5.1 - 360"
    "binary64 (binary64 5.1 - 360) \<noteq> binary64 5.1 + 360"
    by code_simp+
  from clamp differ show ?thesis
    by (simp add: relative_move_sunapi_params [OF status_358] status_358 num_def)
qed

text \<open>
  C5 (amended). Pan is circular: whatever the current pan \<open>p\<close> and the requested delta
  \<open>d\<close>, the pan delta \<open>c\<close> that \<^verbatim>\<open>relative_move\<close> sends is \<open>d\<close> or the double nearest to
  \<open>d - 360\<close> or to \<open>360 + d\<close>. So for \<open>k\<close> one of -1, 0 and 1, \<open>c\<close> is \<open>d + 360 k\<close> up to the
  rounding of that one operation, a relative error of at most \<open>2\<^sup>-\<^sup>5\<^sup>3\<close>, and the
  projected pan \<open>p + c\<close> is \<open>p + d + 360 k\<close> up to the same error: the heading is kept
  up to a full turn and one rounding. Where \<open>d - 360\<close> and \<open>360 + d\<close> are doubles
  themselves, \<open>c\<close> is exactly \<open>d\<close>, \<open>d - 360\<close> or \<open>d + 360\<close>.
\<close>

theorem pan_circular:
  assumes "get_ptz_status_sunapi E self w = (Return (p, t, z, zp), w1)"
  shows "\<exists>c. map_of (req_params (last (sent (snd (relative_move_sunapi E self (Some d) tilt zoom w))))) ''Pan'' =
            Some (PyNum c) \<and>
          (c = d \<or> c = binary64 (d - 360) \<or> c = binary64 (360 + d)) \<and>
          (\<exists>k::int. (k = - 1 \<or> k = 0 \<or> k = 1) \<and>
             \<bar>c - (d + 360 * of_int k)\<bar> \<le> \<bar>d + 360 * of_int k\<bar> / 2 ^ 53 \<and>
             \<bar>(p + c) - (p + d + 360 * of_int k)\<bar> \<le> \<bar>d + 360 * of_int k\<bar> / 2 ^ 53) \<and>
          (binary64 (d - 360) = d - 360 \<and> binary64 (360 + d) = 360 + d \<longrightarrow>
             (c = d \<or> c = d - 360 \<or> c = d + 360) \<and>
             (\<exists>k::int. c = d + 360 * of_int k) \<and>
             (\<exists>k::int. p + c = (p + d) + 360 * of_int k))"
proof -
  let ?c = "if binary64 (p + d) > 360 then binary64 (d - 360)
            else if binary64 (p + d) < 0 then binary64 (360 + d) else d"
  let ?k = "if binary64 (p + d) > 360 then - 1 else if binary64 (p + d) < 0 then 1 else 0 :: int"
  have sent: "map_of (req_params (last (sent (snd (relative_move_sunapi E self (Some d) tilt zoom w))))) ''Pan'' =
      Some (PyNum ?c)"
    by (simp add: relative_move_sunapi_params [OF assms] clamp_pan_def num_def)
  have cases: "?c = d \<or> ?c = binary64 (d - 360) \<or> ?c = binary64 (360 + d)"
    by simp
  have k: "?k = - 1 \<or> ?k = 0 \<or> ?k = 1"
    by simp
  have near: "\<bar>?c - (d + 360 * of_int ?k)\<bar> \<le> \<bar>d + 360 * of_int ?k\<bar> / 2 ^ 53"
    using binary64_relative_error [of "d - 360"] binary64_relative_error [of "360 + d"]
    by (simp add: add.commute)
  then have "\<bar>(p + ?c) - (p + d + 360 * of_int ?k)\<bar> \<le> \<bar>d + 360 * of_int ?k\<bar> / 2 ^ 53"
    by (simp add: algebra_simps)
  with near k have rounded: "\<exists>k::int. (k = - 1 \<or> k = 0 \<or> k = 1) \<and>
             \<bar>?c - (d + 360 * of_int k)\<bar> \<le> \<bar>d + 360 * of_int k\<bar> / 2 ^ 53 \<and>
             \<bar>(p + ?c) - (p + d + 360 * of_int k)\<bar> \<le> \<bar>d + 360 * of_int k\<bar> / 2 ^ 53"
    by blast
  have exact: "(?c = d \<or> ?c = d - 360 \<or> ?c = d + 360) \<and>
             (\<exists>k::int. ?c = d + 360 * of_int k) \<and>
             (\<exists>k::int. p + ?c = (p + d) + 360 * of_int k)"
    if doubles: "binary64 (d - 360) = d - 360 \<and> binary64 (360 + d) = 360 + d"
  proof -
    from doubles have turn: "?c = d + 360 * of_int ?k"
      by simp
    then have shapes: "?c = d \<or> ?c = d - 360 \<or> ?c = d + 360"
      by (simp split: if_splits)
    from turn have one: "\<exists>k::int. ?c = d + 360 * of_int k" ..
    from turn have "p + ?c = (p + d) + 360 * of_int ?k" by simp
    then have "\<exists>k::int. p + ?c = (p + d) + 360 * of_int k" ..
    with shapes one show ?thesis by blast
  qed
  from sent cases rounded exact show ?thesis by blast
qed

theorem pan_circular_witness:
  "map_of (req_params (last (sent (snd (relative_move_sunapi
      (fixed_reply 200 ''Pan=358 Tilt=80 Zoom=35 ZoomPulse=0'')
      (init_sunapi ''10.0.0.7'' ''admin'' ''secret'') (Some 5) (Some 15) (Some 10) no_effects))))) ''Pan'' =
     Some (PyNum (5 - 360)) \<and>
   binary64 (5 - 360) = 5 - 360"
proof -
  have "binary64 (5 - 360) = 5 - 360"
    by code_simp
  with pan_circular [OF status_358, where d = 5 and tilt = "Some 15" and zoom = "Some 10"]
  show ?thesis
    by (simp add: relative_move_sunapi_params [OF status_358] clamps_358 num_def)
qed

subsection \<open>Tilt\<close>

text \<open>
  C4, as stated, fails: at the reading 10.1 and the request -30.1 (the doubles nearest
  to them) the sum of the two numbers is below -20, but the sum that the code computes
  is -20: the second branch is not taken and -30.1 is sent on, not \<open>- 20 + \<bar>t\<bar>\<close>.
\<close>

theorem tilt_clamping_counterexample:
  "fst (get_ptz_status_sunapi (double_reply 200 ''Pan=358 Tilt=10.1 Zoom=35 ZoomPulse=0'')
      (init_sunapi ''10.0.0.7'' ''admin'' ''secret'') no_effects) = Return (358, binary64 10.1, 35, 0) \<and>
   (- 20 \<le> binary64 10.1 \<and> binary64 10.1 \<le> 90) \<and>
   binary64 10.1 + binary64 (- 30.1) < - 20 \<and>
   map_of (req_params (last (sent (snd (relative_move_sunapi
      (double_reply 200 ''Pan=358 Tilt=10.1 Zoom=35 ZoomPulse=0'')
      (init_sunapi ''10.0.0.7'' ''admin'' ''secret'') None (Some (binary64 (- 30.1))) None no_effects))))) ''Tilt'' =
     Some (PyNum (binary64 (- 30.1))) \<and>
   binary64 (- 30.1) \<noteq> - 20 + \<bar>binary64 10.1\<bar>"
proof -
  have clamp: "clamp_tilt (binary64 10.1) (Some (binary64 (- 30.1))) = Some (binary64 (- 30.1))"
    by code_simp
  have facts: "- 20 \<le> binary64 10.1" "binary64 10.1 \<le> 90"
    "binary64 10.1 + binary64 (- 30.1) < - 20"
    "binary64 (- 30.1) \<noteq> - 20 + \<bar>binary64 10.1\<bar>"
    by code_simp+
  from clamp facts show ?thesis
    by (simp add: relative_move_sunapi_params [OF status_10_1] status_10_1 num_def)
qed

text \<open>
  C4 (amended). Tilt clamping of \<^verbatim>\<open>relative_move\<close>, in the arithmetic of the code: for a
  current tilt \<open>t\<close> in [-20, 90] and a requested tilt delta \<open>d\<close>, if the rounded sum of
  \<open>t\<close> and \<open>d\<close> exceeds 90 the tilt delta sent is the rounded \<open>90 - t\<close>; if the rounded sum
  is below -20 it is the rounded \<open>- 20 + \<bar>t\<bar>\<close>; otherwise it is \<open>d\<close>, unchanged. The
  rounded sum lies on the same side of 90 and of -20 as the exact sum \<open>t + d\<close>, or on
  the bound itself; so \<open>d\<close> is sent unchanged whenever \<open>- 20 \<le> t + d \<le> 90\<close>.
\<close>

theorem tilt_clamping:
  assumes "get_ptz_status_sunapi E self w = (Return (p, t, z, zp), w1)"
    and "- 20 \<le> t" and "t \<le> 90"
  shows "map_of (req_params (last (sent (snd (relative_move_sunapi E self pan (Some d) zoom w))))) ''Tilt'' =
     Some (PyNum (if binary64 (t + d) > 90 then binary64 (90 - t)
                  else if binary64 (t + d) < - 20 then binary64 (- 20 + \<bar>t\<bar>) else d)) \<and>
   (90 < t + d \<longrightarrow> 90 \<le> binary64 (t + d)) \<and>
   (t + d < - 20 \<longrightarrow> binary64 (t + d) \<le> - 20) \<and>
   (- 20 \<le> t + d \<and> t + d \<le> 90 \<longrightarrow>
      map_of (req_params (last (sent (snd (relative_move_sunapi E self pan (Some d) zoom w))))) ''Tilt'' =
        Some (PyNum d))"
proof -
  have sent: "map_of (req_params (last (sent (snd (relative_move_sunapi E self pan (Some d) zoom w))))) ''Tilt'' =
     Some (PyNum (if binary64 (t + d) > 90 then binary64 (90 - t)
                  else if binary64 (t + d) < - 20 then binary64 (- 20 + \<bar>t\<bar>) else d))"
    by (simp add: relative_move_sunapi_params [OF assms(1)] clamp_tilt_def num_def)
  have above: "90 \<le> binary64 (t + d)" if "90 \<le> t + d"
    using binary64_mono [OF that] by (simp add: binary64_fixed)
  have below: "binary64 (t + d) \<le> - 20" if "t + d \<le> - 20"
    using binary64_mono [OF that] by (simp add: binary64_fixed)
  have upper: "binary64 (t + d) \<le> 90" if "t + d \<le> 90"
    using binary64_mono [OF that] by (simp add: binary64_fixed)
  have lower: "- 20 \<le> binary64 (t + d)" if "- 20 \<le> t + d"
    using binary64_mono [OF that] by (simp add: binary64_fixed)
  have inside: "map_of (req_params (last (sent (snd (relative_move_sunapi E self pan (Some d) zoom w))))) ''Tilt'' =
        Some (PyNum d)" if "- 20 \<le> t + d \<and> t + d \<le> 90"
    using that upper lower by (simp add: sent)
  from sent above below inside show ?thesis by simp
qed

theorem tilt_clamping_witness:
  "(- 20 \<le> (80::real) \<and> (80::real) \<le> 90) \<and>
   binary64 (80 + 15) > 90 \<and> binary64 (90 - 80) = 10 \<and>
   map_of (req_params (last (sent (snd (relative_move_sunapi
      (fixed_reply 200 ''Pan=358 Tilt=80 Zoom=35 ZoomPulse=0'')
      (init_sunapi ''10.0.0.7'' ''admin'' ''secret'') (Some 5) (Some 15) (Some 10) no_effects))))) ''Tilt'' =
     Some (PyNum 10)"
proof -
  have facts: "binary64 (80 + 15) > 90" "binary64 (90 - 80) = 10"
    by code_simp+
  with tilt_clamping [OF status_358, where d = 15 and pan = "Some 5" and zoom = "Some 10",
      THEN conjunct1]
  show ?thesis by simp
qed

text \<open>
  C10, as stated, fails: at the reading 10.1 and the request -30.1 its hypotheses hold
  (\<open>0 \<le> t \<le> 90\<close> and \<open>t + d < - 20\<close>), but the sum that the code computes is -20, and
  -30.1 is sent on, not \<open>- 20 + t\<close>.
\<close>

theorem tilt_lower_branch_counterexample:
  "(0 \<le> binary64 10.1 \<and> binary64 10.1 \<le> 90 \<and> binary64 10.1 + binary64 (- 30.1) < - 20) \<and>
   binary64 (binary64 10.1 + binary64 (- 30.1)) = - 20 \<and>
   map_of (req_params (last (sent (snd (relative_move_sunapi
      (double_reply 200 ''Pan=358 Tilt=10.1 Zoom=35 ZoomPulse=0'')
      (init_sunapi ''10.0.0.7'' ''admin'' ''secret'') (Some 0) (Some (binary64 (- 30.1))) (Some 0) no_effects))))) ''Tilt'' =
     Some (PyNum (binary64 (- 30.1))) \<and>
   binary64 (- 30.1) \<noteq> - 20 + binary64 10.1"
proof -
  have clamp: "clamp_tilt (binary64 10.1) (Some (binary64 (- 30.1))) = Some (binary64 (- 30.1))"
    by code_simp
  have facts: "0 \<le> binary64 10.1" "binary64 10.1 \<le> 90"
    "binary64 10.1 + binary64 (- 30.1) < - 20"
    "binary64 (binary64 10.1 + binary64 (- 30.1)) = - 20"
    "binary64 (- 30.1) \<noteq> - 20 + binary64 10.1"
    by code_simp+
  from clamp facts show ?thesis
    by (simp add: relative_move_sunapi_params [OF status_10_1] num_def)
qed

text \<open>
  C10 (amended). The lower tilt branch on a non-negative reading, in the arithmetic of
  the code: for a current tilt \<open>t\<close> with \<open>0 \<le> t \<le> 90\<close> and a requested tilt delta \<open>d\<close>
  whose rounded sum with \<open>t\<close> is below -20, the tilt delta sent is the rounded
  \<open>- 20 + t\<close>. The projected tilt, \<open>t\<close> plus that delta, is within \<open>2\<^sup>-\<^sup>4\<^sup>7\<close> of \<open>2 t - 20\<close>; it is
  the lower bound -20 exactly when \<open>t = 0\<close>, and it exceeds the upper bound 90 whenever
  \<open>t > 55\<close>.
\<close>

theorem tilt_lower_branch:
  assumes "get_ptz_status_sunapi E self w = (Return (p, t, z, zp), w1)"
    and "0 \<le> t" and "t \<le> 90" and "binary64 (t + d) < - 20"
  shows "map_of (req_params (last (sent (snd (relative_move_sunapi E self pan (Some d) zoom w))))) ''Tilt'' =
           Some (PyNum (binary64 (- 20 + t))) \<and>
         \<bar>(t + binary64 (- 20 + t)) - (2 * t - 20)\<bar> \<le> 1 / 2 ^ 47 \<and>
         (t + binary64 (- 20 + t) = - 20 \<longleftrightarrow> t = 0) \<and>
         (55 < t \<longrightarrow> 90 < t + binary64 (- 20 + t))"
proof -
  from assms(2,3) have "\<not> 90 < binary64 (t + d)"
    using assms(4) by simp
  with assms(2,4)
  have sent: "map_of (req_params (last (sent (snd (relative_move_sunapi E self pan (Some d) zoom w))))) ''Tilt'' =
      Some (PyNum (binary64 (- 20 + t)))"
    by (simp add: relative_move_sunapi_params [OF assms(1)] clamp_tilt_def num_def)
  from assms(2,3) have "\<bar>- 20 + t\<bar> < 2 powi 7" by (simp add: abs_less_iff)
  then have "\<bar>binary64 (- 20 + t) - (- 20 + t)\<bar> \<le> 2 powi (7 - 54)" by (rule binary64_error)
  then have near: "\<bar>(t + binary64 (- 20 + t)) - (2 * t - 20)\<bar> \<le> 1 / 2 ^ 47"
    by (simp add: power_int_minus_divide algebra_simps)
  from assms(2) have "- 20 \<le> - 20 + t" by simp
  then have "binary64 (- 20) \<le> binary64 (- 20 + t)" by (rule binary64_mono)
  then have floor: "- 20 \<le> binary64 (- 20 + t)" by (simp add: binary64_fixed)
  have bound: "t + binary64 (- 20 + t) = - 20 \<longleftrightarrow> t = 0"
  proof
    assume "t + binary64 (- 20 + t) = - 20"
    with floor assms(2) show "t = 0" by simp
  next
    assume "t = 0"
    then show "t + binary64 (- 20 + t) = - 20" by (simp add: binary64_fixed)
  qed
  have over: "90 < t + binary64 (- 20 + t)" if "55 < t"
  proof -
    from that have "35 \<le> - 20 + t" by simp
    then have "binary64 35 \<le> binary64 (- 20 + t)" by (rule binary64_mono)
    with that show ?thesis by (simp add: binary64_fixed)
  qed
  from sent near bound over show ?thesis by blast
qed

theorem tilt_lower_branch_witness:
  "(0 \<le> (80::real) \<and> (80::real) \<le> 90 \<and> binary64 (80 + (- 120)) < - 20) \<and>
   map_of (req_params (last (sent (snd (relative_move_sunapi
      (fixed_reply 200 ''Pan=358 Tilt=80 Zoom=35 ZoomPulse=0'')
      (init_sunapi ''10.0.0.7'' ''admin'' ''secret'') None (Some (- 120)) None no_effects))))) ''Tilt'' =
     Some (PyNum 60) \<and>
   (90::real) < 80 + 60"
proof -
  have facts: "binary64 (80 + (- 120)) < - 20" "binary64 (- 20 + 80) = 60"
    by code_simp+
  with tilt_lower_branch [OF status_358, where d = "- 120" and pan = None and zoom = None]
  show ?thesis by simp
qed

section \<open>SUNAPI and VAPIX: the status reply\<close>

text \<open>
  C3, as stated, fails for one of the two decoders it names: \<^verbatim>\<open>VAPIXCamera.get_ptz_status\<close>
  returns the pan as parsed. The reading 359.99 is within 0.02 of 360 and is returned
  as 359.99, not as 0.
\<close>

theorem status_normalisation_counterexample:
  "fst (get_ptz_status_vapix (fixed_reply 200 ''pan=359.99\<newline>tilt=80\<newline>zoom=35\<newline>'')
      (init_vapix ''10.0.0.8'' ''root'' ''secret'') 1700000000 no_effects) =
     Return (359.99, 80, 35) \<and>
   \<bar>360 - 359.99\<bar> < (0.02::real) \<and> (359.99::real) \<noteq> 0"
  by code_simp

text \<open>
  C3 (amended). \<^verbatim>\<open>SUNAPICamera.get_ptz_status\<close> normalises the pan: when the exchange
  returns and the four fields of the reply parse to \<open>p\<close>, \<open>t\<close>, \<open>z\<close>, \<open>zp\<close>, the decoded pan
  is 0 if \<open>\<bar>360 - p\<bar> < 0.02\<close> or \<open>p < 0.02\<close>, and \<open>p\<close> otherwise; so it is 0 whenever \<open>p\<close>
  is within 0.02 of 360 or of 0. \<^verbatim>\<open>VAPIXCamera.get_ptz_status\<close> does not normalise: it
  returns the three parsed fields as they are.
\<close>

theorem status_normalisation:
  assumes "cmd_sunapi E self ''ptzcontrol.cgi''
             [(''msubmenu'', PyStr ''query''), (''action'', PyStr ''view''),
              (''Query'', PyStr ''Pan,Tilt,Zoom'')] w = (Return r, w1)"
    and "status_field E (resp_text r) 0 = Inr p"
    and "status_field E (resp_text r) 1 = Inr t"
    and "status_field E (resp_text r) 2 = Inr z"
    and "status_field E (resp_text r) 3 = Inr zp"
    and "cmd_vapix E' self' now [(''query'', PyStr ''position'')] w' = (Return r', w1')"
    and "status_field E' (resp_text r') 0 = Inr p'"
    and "status_field E' (resp_text r') 1 = Inr t'"
    and "status_field E' (resp_text r') 2 = Inr z'"
  shows "get_ptz_status_sunapi E self w =
           (Return (if \<bar>360 - p\<bar> < 0.02 \<or> p < 0.02 then 0 else p, t, z, zp), w1) \<and>
         (\<bar>360 - p\<bar> < 0.02 \<or> \<bar>p\<bar> < 0.02 \<longrightarrow>
            get_ptz_status_sunapi E self w = (Return (0, t, z, zp), w1)) \<and>
         get_ptz_status_vapix E' self' now w' = (Return (p', t', z'), w1')"
proof -
  have sunapi: "get_ptz_status_sunapi E self w =
           (Return (if \<bar>360 - p\<bar> < 0.02 \<or> p < 0.02 then 0 else p, t, z, zp), w1)"
    using assms(1-5) by (simp add: get_ptz_status_sunapi_def)
  have near: "get_ptz_status_sunapi E self w = (Return (0, t, z, zp), w1)"
    if "\<bar>360 - p\<bar> < 0.02 \<or> \<bar>p\<bar> < 0.02"
  proof -
    from that have "\<bar>360 - p\<bar> < 0.02 \<or> p < 0.02" by linarith
    with sunapi show ?thesis by simp
  qed
  have vapix: "get_ptz_status_vapix E' self' now w' = (Return (p', t', z'), w1')"
    using assms(6-9) by (simp add: get_ptz_status_vapix_def)
  from sunapi near vapix show ?thesis by blast
qed

text \<open>The two exchanges of the example, and the fields of their replies.\<close>

lemma sunapi_reply_359_99:
  "cmd_sunapi (fixed_reply 200 ''Pan=359.99\<newline>Tilt=80\<newline>Zoom=35\<newline>ZoomPulse=0\<newline>'')
     (init_sunapi ''10.0.0.7'' ''admin'' ''secret'') ''ptzcontrol.cgi''
       [(''msubmenu'', PyStr ''query''), (''action'', PyStr ''view''),
        (''Query'', PyStr ''Pan,Tilt,Zoom'')] no_effects =
   (Return \<lparr>status_code = 200, resp_text = ''Pan=359.99\<newline>Tilt=80\<newline>Zoom=35\<newline>ZoomPulse=0\<newline>''\<rparr>,
    \<lparr>sent = [\<lparr>req_url = ''http://10.0.0.7/stw-cgi/ptzcontrol.cgi'', req_user = ''admin'',
               req_password = ''secret'',
               req_params = [(''msubmenu'', PyStr ''query''), (''action'', PyStr ''view''),
                             (''Query'', PyStr ''Pan,Tilt,Zoom'')]\<rparr>],
     printed = []\<rparr>)"
  by code_simp

lemma vapix_reply_359_99:
  "cmd_vapix (fixed_reply 200 ''pan=359.99\<newline>tilt=80\<newline>zoom=35\<newline>'')
     (init_vapix ''10.0.0.8'' ''root'' ''secret'') 1700000000 [(''query'', PyStr ''position'')] no_effects =
   (Return \<lparr>status_code = 200, resp_text = ''pan=359.99\<newline>tilt=80\<newline>zoom=35\<newline>''\<rparr>,
    \<lparr>sent = [\<lparr>req_url = ''http://10.0.0.8/axis-cgi/com/ptz.cgi'', req_user = ''root'',
               req_password = ''secret'',
               req_params = [(''query'', PyStr ''position''), (''camera'', PyNum 1),
                             (''html'', PyStr ''no''), (''timestamp'', PyNum 1700000000)]\<rparr>],
     printed = []\<rparr>)"
  by code_simp

lemma sunapi_fields_359_99:
  "status_field (fixed_reply 200 ''Pan=359.99\<newline>Tilt=80\<newline>Zoom=35\<newline>ZoomPulse=0\<newline>'')
     (resp_text \<lparr>status_code = 200, resp_text = ''Pan=359.99\<newline>Tilt=80\<newline>Zoom=35\<newline>ZoomPulse=0\<newline>''\<rparr>) 0 = Inr 359.99"
  "status_field (fixed_reply 200 ''Pan=359.99\<newline>Tilt=80\<newline>Zoom=35\<newline>ZoomPulse=0\<newline>'')
     (resp_text \<lparr>status_code = 200, resp_text = ''Pan=359.99\<newline>Tilt=80\<newline>Zoom=35\<newline>ZoomPulse=0\<newline>''\<rparr>) 1 = Inr 80"
  "status_field (fixed_reply 200 ''Pan=359.99\<newline>Tilt=80\<newline>Zoom=35\<newline>ZoomPulse=0\<newline>'')
     (resp_text \<lparr>status_code = 200, resp_text = ''Pan=359.99\<newline>Tilt=80\<newline>Zoom=35\<newline>ZoomPulse=0\<newline>''\<rparr>) 2 = Inr 35"
  "status_field (fixed_reply 200 ''Pan=359.99\<newline>Tilt=80\<newline>Zoom=35\<newline>ZoomPulse=0\<newline>'')
     (resp_text \<lparr>status_code = 200, resp_text = ''Pan=359.99\<newline>Tilt=80\<newline>Zoom=35\<newline>ZoomPulse=0\<newline>''\<rparr>) 3 = Inr 0"
  by code_simp+

lemma vapix_fields_359_99:
  "status_field (fixed_reply 200 ''pan=359.99\<newline>tilt=80\<newline>zoom=35\<newline>'')
     (resp_text \<lparr>status_code = 200, resp_text = ''pan=359.99\<newline>tilt=80\<newline>zoom=35\<newline>''\<rparr>) 0 = Inr 359.99"
  "status_field (fixed_reply 200 ''pan=359.99\<newline>tilt=80\<newline>zoom=35\<newline>'')
     (resp_text \<lparr>status_code = 200, resp_text = ''pan=359.99\<newline>tilt=80\<newline>zoom=35\<newline>''\<rparr>) 1 = Inr 80"
  "status_field (fixed_reply 200 ''pan=359.99\<newline>tilt=80\<newline>zoom=35\<newline>'')
     (resp_text \<lparr>status_code = 200, resp_text = ''pan=359.99\<newline>tilt=80\<newline>zoom=35\<newline>''\<rparr>) 2 = Inr 35"
  by code_simp+

theorem status_normalisation_witness:
  "fst (get_ptz_status_sunapi
      (fixed_reply 200 ''Pan=359.99\<newline>Tilt=80\<newline>Zoom=35\<newline>ZoomPulse=0\<newline>'')
      (init_sunapi ''10.0.0.7'' ''admin'' ''secret'') no_effects) = Return (0, 80, 35, 0) \<and>
   fst (get_ptz_status_vapix (fixed_reply 200 ''pan=359.99\<newline>tilt=80\<newline>zoom=35\<newline>'')
      (init_vapix ''10.0.0.8'' ''root'' ''secret'') 1700000000 no_effects) = Return (359.99, 80, 35)"
  using status_normalisation [OF sunapi_reply_359_99 sunapi_fields_359_99 vapix_reply_359_99
      vapix_fields_359_99]
  by simp

section \<open>SUNAPI: enumerated arguments\<close>

lemma cmd_sunapi_not_Exception:
  "fst (cmd_sunapi E self cgi payload w) \<noteq> Raise (Exception m)"
  by (simp add: cmd_sunapi_def Let_def split: sum.splits)

text \<open>
  C8. The five SUNAPI operations with an enumerated string argument: a string outside
  the allowed set makes the call raise before anything is sent (the effects are
  unchanged); a string inside it makes the call the exchange itself, which raises no
  \<^verbatim>\<open>Exception\<close> of this kind.
\<close>

theorem enumerated_arguments:
  "(s \<notin> {''Near'', ''Far'', ''Stop''} \<longrightarrow>
      continuous_move_sunapi E self normalized_speed pan tilt zoom (PyStr s) w =
        (Raise (Exception focus_message), w)) \<and>
   (s \<in> {''Near'', ''Far'', ''Stop''} \<longrightarrow>
      continuous_move_sunapi E self normalized_speed pan tilt zoom (PyStr s) w =
        cmd_sunapi E self ''ptzcontrol.cgi''
          [(''msubmenu'', PyStr ''continuous''), (''action'', PyStr ''control''),
           (''NormalizedSpeed'', normalized_speed), (''Pan'', pan),
           (''Tilt'', tilt), (''Zoom'', zoom), (''Focus'', PyStr s)] w \<and>
      (\<forall>m. fst (continuous_move_sunapi E self normalized_speed pan tilt zoom (PyStr s) w) \<noteq>
              Raise (Exception m))) \<and>
   (s \<notin> {''Pan'', ''Tilt'', ''PanTilt'', ''Stop''} \<longrightarrow>
      swing_control_sunapi E self channel (PyStr s) w = (Raise (Exception swing_message), w)) \<and>
   (s \<in> {''Pan'', ''Tilt'', ''PanTilt'', ''Stop''} \<longrightarrow>
      swing_control_sunapi E self channel (PyStr s) w =
        cmd_sunapi E self ''ptzcontrol.cgi''
          [(''msubmenu'', PyStr ''swing''), (''action'', PyStr ''control''),
           (''Channel'', channel), (''Mode'', PyStr s)] w \<and>
      (\<forall>m. fst (swing_control_sunapi E self channel (PyStr s) w) \<noteq> Raise (Exception m))) \<and>
   (s \<notin> {''Start'', ''Stop''} \<longrightarrow>
      group_control_sunapi E self channel n (PyStr s) w = (Raise (Exception start_stop_message), w) \<and>
      tour_control_sunapi E self channel n (PyStr s) w = (Raise (Exception start_stop_message), w) \<and>
      trace_control_sunapi E self channel n (PyStr s) w = (Raise (Exception start_stop_message), w)) \<and>
   (s \<in> {''Start'', ''Stop''} \<longrightarrow>
      group_control_sunapi E self channel n (PyStr s) w =
        cmd_sunapi E self ''ptzcontrol.cgi''
          [(''msubmenu'', PyStr ''group''), (''action'', PyStr ''control''),
           (''Channel'', channel), (''Group'', n), (''Mode'', PyStr s)] w \<and>
      tour_control_sunapi E self channel n (PyStr s) w =
        cmd_sunapi E self ''ptzcontrol.cgi''
          [(''msubmenu'', PyStr ''tour''), (''action'', PyStr ''control''),
           (''Channel'', channel), (''Tour'', n), (''Mode'', PyStr s)] w \<and>
      trace_control_sunapi E self channel n (PyStr s) w =
        cmd_sunapi E self ''ptzcontrol.cgi''
          [(''msubmenu'', PyStr ''trace''), (''action'', PyStr ''control''),
           (''Channel'', channel), (''Trace'', n), (''Mode'', PyStr s)] w \<and>
      (\<forall>m. fst (group_control_sunapi E self channel n (PyStr s) w) \<noteq> Raise (Exception m) \<and>
           fst (tour_control_sunapi E self channel n (PyStr s) w) \<noteq> Raise (Exception m) \<and>
           fst (trace_control_sunapi E self channel n (PyStr s) w) \<noteq> Raise (Exception m)))"
proof -
  have continuous: "continuous_move_sunapi E self normalized_speed pan tilt zoom (PyStr s) w =
      (if s \<in> {''Near'', ''Far'', ''Stop''}
       then cmd_sunapi E self ''ptzcontrol.cgi''
          [(''msubmenu'', PyStr ''continuous''), (''action'', PyStr ''control''),
           (''NormalizedSpeed'', normalized_speed), (''Pan'', pan),
           (''Tilt'', tilt), (''Zoom'', zoom), (''Focus'', PyStr s)] w
       else (Raise (Exception focus_message), w))"
    by (simp add: continuous_move_sunapi_def)
  have swing: "swing_control_sunapi E self channel (PyStr s) w =
      (if s \<in> {''Pan'', ''Tilt'', ''PanTilt'', ''Stop''}
       then cmd_sunapi E self ''ptzcontrol.cgi''
          [(''msubmenu'', PyStr ''swing''), (''action'', PyStr ''control''),
           (''Channel'', channel), (''Mode'', PyStr s)] w
       else (Raise (Exception swing_message), w))"
    by (simp add: swing_control_sunapi_def)
  have group: "group_control_sunapi E self channel n (PyStr s) w =
      (if s \<in> {''Start'', ''Stop''}
       then cmd_sunapi E self ''ptzcontrol.cgi''
          [(''msubmenu'', PyStr ''group''), (''action'', PyStr ''control''),
           (''Channel'', channel), (''Group'', n), (''Mode'', PyStr s)] w
       else (Raise (Exception start_stop_message), w))"
    by (simp add: group_control_sunapi_def)
  have tour: "tour_control_sunapi E self channel n (PyStr s) w =
      (if s \<in> {''Start'', ''Stop''}
       then cmd_sunapi E self ''ptzcontrol.cgi''
          [(''msubmenu'', PyStr ''tour''), (''action'', PyStr ''control''),
           (''Channel'', channel), (''Tour'', n), (''Mode'', PyStr s)] w
       else (Raise (Exception start_stop_message), w))"
    by (simp add: tour_control_sunapi_def)
  have trace: "trace_control_sunapi E self channel n (PyStr s) w =
      (if s \<in> {''Start'', ''Stop''}
       then cmd_sunapi E self ''ptzcontrol.cgi''
          [(''msubmenu'', PyStr ''trace''), (''action'', PyStr ''control''),
           (''Channel'', channel), (''Trace'', n), (''Mode'', PyStr s)] w
       else (Raise (Exception start_stop_message), w))"
    by (simp add: trace_control_sunapi_def)
  show ?thesis
    unfolding continuous swing group tour trace
    by (simp add: cmd_sunapi_not_Exception)
qed

theorem enumerated_arguments_witness:
  "continuous_move_sunapi (fixed_reply 200 ''OK'') (init_sunapi ''10.0.0.7'' ''admin'' ''secret'')
      (PyBool True) (PyNum 1) PyNone PyNone (PyStr ''Up'') no_effects =
     (Raise (Exception focus_message), no_effects) \<and>
   fst (continuous_move_sunapi (fixed_reply 200 ''OK'') (init_sunapi ''10.0.0.7'' ''admin'' ''secret'')
      (PyBool True) PyNone PyNone PyNone (PyStr ''Stop'') no_effects) =
     Return \<lparr>status_code = 200, resp_text = ''OK''\<rparr> \<and>
   swing_control_sunapi (fixed_reply 200 ''OK'') (init_sunapi ''10.0.0.7'' ''admin'' ''secret'')
      (PyNum 0) (PyStr ''Up'') no_effects =
     (Raise (Exception swing_message), no_effects) \<and>
   fst (swing_control_sunapi (fixed_reply 200 ''OK'') (init_sunapi ''10.0.0.7'' ''admin'' ''secret'')
      (PyNum 0) (PyStr ''Stop'') no_effects) =
     Return \<lparr>status_code = 200, resp_text = ''OK''\<rparr> \<and>
   group_control_sunapi (fixed_reply 200 ''OK'') (init_sunapi ''10.0.0.7'' ''admin'' ''secret'')
      (PyNum 0) (PyNum 1) (PyStr ''Up'') no_effects =
     (Raise (Exception start_stop_message), no_effects) \<and>
   fst (group_control_sunapi (fixed_reply 200 ''OK'') (init_sunapi ''10.0.0.7'' ''admin'' ''secret'')
      (PyNum 0) (PyNum 1) (PyStr ''Stop'') no_effects) =
     Return \<lparr>status_code = 200, resp_text = ''OK''\<rparr>"
  using
    enumerated_arguments [where s = "''Up''" and E = "fixed_reply 200 ''OK''" and w = no_effects
      and self = "init_sunapi ''10.0.0.7'' ''admin'' ''secret''" and normalized_speed = "PyBool True"
      and pan = "PyNum 1" and tilt = PyNone and zoom = PyNone and channel = "PyNum 0" and n = "PyNum 1"]
    enumerated_arguments [where s = "''Stop''" and E = "fixed_reply 200 ''OK''" and w = no_effects
      and self = "init_sunapi ''10.0.0.7'' ''admin'' ''secret''" and normalized_speed = "PyBool True"
      and pan = PyNone and tilt = PyNone and zoom = PyNone and channel = "PyNum 0" and n = "PyNum 1"]
  by (simp add: cmd_sunapi_def fixed_reply_def)

section \<open>SUNAPI and VAPIX: status codes of an exchange\<close>

text \<open>
  C9. \<^verbatim>\<open>__cmd\<close> of both HTTP facades, when the transport answers with a response \<open>r\<close>:
  with status 200 or 204 the response is returned and nothing is printed; with any
  other status the text of the body is printed; the response is then returned, except
  with status 401, which ends the process with \<^verbatim>\<open>exit(1)\<close>.
\<close>

theorem status_codes:
  assumes "http_get E (sent w)
             \<lparr>req_url = url self @ cgi, req_user = username self,
              req_password = password self, req_params = payload\<rparr> = Inr r"
    and "http_get E (sent w')
             \<lparr>req_url = url self', req_user = username self', req_password = password self',
              req_params = merge_vapix [payload', [(''camera'', PyNum 1), (''html'', PyStr ''no''),
                  (''timestamp'', PyNum (of_int now))]]\<rparr> = Inr r'"
  shows "cmd_sunapi E self cgi payload w =
     (if status_code r = 200 \<or> status_code r = 204 then
        (Return r,
         w\<lparr>sent := sent w @ [\<lparr>req_url = url self @ cgi, req_user = username self,
              req_password = password self, req_params = payload\<rparr>]\<rparr>)
      else
        (if status_code r = 401 then Exit 1 else Return r,
         w\<lparr>sent := sent w @ [\<lparr>req_url = url self @ cgi, req_user = username self,
              req_password = password self, req_params = payload\<rparr>],
           printed := printed w @ [''%s '' @ get_text E (resp_text r)]\<rparr>)) \<and>
   cmd_vapix E self' now payload' w' =
     (if status_code r' = 200 \<or> status_code r' = 204 then
        (Return r',
         w'\<lparr>sent := sent w' @ [\<lparr>req_url = url self', req_user = username self',
              req_password = password self',
              req_params = merge_vapix [payload', [(''camera'', PyNum 1), (''html'', PyStr ''no''),
                  (''timestamp'', PyNum (of_int now))]]\<rparr>]\<rparr>)
      else
        (if status_code r' = 401 then Exit 1 else Return r',
         w'\<lparr>sent := sent w' @ [\<lparr>req_url = url self', req_user = username self',
              req_password = password self',
              req_params = merge_vapix [payload', [(''camera'', PyNum 1), (''html'', PyStr ''no''),
                  (''timestamp'', PyNum (of_int now))]]\<rparr>],
           printed := printed w' @ [''%s '' @ get_text E (resp_text r')]\<rparr>))"
proof -
  have sunapi: "cmd_sunapi E self cgi payload w =
     (if status_code r = 200 \<or> status_code r = 204 then
        (Return r,
         w\<lparr>sent := sent w @ [\<lparr>req_url = url self @ cgi, req_user = username self,
              req_password = password self, req_params = payload\<rparr>]\<rparr>)
      else
        (if status_code r = 401 then Exit 1 else Return r,
         w\<lparr>sent := sent w @ [\<lparr>req_url = url self @ cgi, req_user = username self,
              req_password = password self, req_params = payload\<rparr>],
           printed := printed w @ [''%s '' @ get_text E (resp_text r)]\<rparr>))"
    using assms(1) by (simp add: cmd_sunapi_def Let_def)
  have vapix: "cmd_vapix E self' now payload' w' =
     (if status_code r' = 200 \<or> status_code r' = 204 then
        (Return r',
         w'\<lparr>sent := sent w' @ [\<lparr>req_url = url self', req_user = username self',
              req_password = password self',
              req_params = merge_vapix [payload', [(''camera'', PyNum 1), (''html'', PyStr ''no''),
                  (''timestamp'', PyNum (of_int now))]]\<rparr>]\<rparr>)
      else
        (if status_code r' = 401 then Exit 1 else Return r',
         w'\<lparr>sent := sent w' @ [\<lparr>req_url = url self', req_user = username self',
              req_password = password self',
              req_params = merge_vapix [payload', [(''camera'', PyNum 1), (''html'', PyStr ''no''),
                  (''timestamp'', PyNum (of_int now))]]\<rparr>],
           printed := printed w' @ [''%s '' @ get_text E (resp_text r')]\<rparr>))"
    using assms(2) by (simp add: cmd_vapix_def Let_def)
  from sunapi vapix show ?thesis by (rule conjI)
qed

theorem status_codes_witness:
  "cmd_sunapi (fixed_reply 401 ''<html>Unauthorized</html>'') (init_sunapi ''10.0.0.7'' ''admin'' ''wrong'')
      ''ptzcontrol.cgi'' [(''msubmenu'', PyStr ''stop'')] no_effects =
     (Exit 1,
      \<lparr>sent = [\<lparr>req_url = ''http://10.0.0.7/stw-cgi/ptzcontrol.cgi'', req_user = ''admin'',
                 req_password = ''wrong'', req_params = [(''msubmenu'', PyStr ''stop'')]\<rparr>],
       printed = [''%s <html>Unauthorized</html>'']\<rparr>) \<and>
   cmd_vapix (fixed_reply 401 ''<html>Unauthorized</html>'') (init_vapix ''10.0.0.8'' ''root'' ''wrong'')
      1700000000 [(''query'', PyStr ''position'')] no_effects =
     (Exit 1,
      \<lparr>sent = [\<lparr>req_url = ''http://10.0.0.8/axis-cgi/com/ptz.cgi'', req_user = ''root'',
                 req_password = ''wrong'',
                 req_params = [(''query'', PyStr ''position''), (''camera'', PyNum 1),
                               (''html'', PyStr ''no''), (''timestamp'', PyNum 1700000000)]\<rparr>],
       printed = [''%s <html>Unauthorized</html>'']\<rparr>)"
  using status_codes [where E = "fixed_reply 401 ''<html>Unauthorized</html>''"
      and self = "init_sunapi ''10.0.0.7'' ''admin'' ''wrong''" and cgi = "''ptzcontrol.cgi''"
      and payload = "[(''msubmenu'', PyStr ''stop'')]" and w = no_effects and w' = no_effects
      and self' = "init_vapix ''10.0.0.8'' ''root'' ''wrong''" and now = 1700000000
      and payload' = "[(''query'', PyStr ''position'')]"
      and r = "\<lparr>status_code = 401, resp_text = ''<html>Unauthorized</html>''\<rparr>"
      and r' = "\<lparr>status_code = 401, resp_text = ''<html>Unauthorized</html>''\<rparr>"]
  by (simp add: fixed_reply_def init_sunapi_def init_vapix_def no_effects_def merge_vapix_def
        dict_update_def AList.update_def)

section \<open>ONVIF: presets by name\<close>

lemma set_preset_loop_iff:
  "set_preset_loop presets preset_name \<longleftrightarrow> (\<exists>q \<in> set presets. str (Name q) = preset_name)"
  by (induction presets) auto

lemma remove_preset_loop_none:
  "\<forall>q \<in> set presets. str (Name q) \<noteq> preset_name \<Longrightarrow>
   remove_preset_loop self presets preset_name w = (Inr None, w)"
  by (induction presets) auto

lemma remove_preset_loop_first:
  "\<forall>q \<in> set before. str (Name q) \<noteq> preset_name \<Longrightarrow> str (Name p) = preset_name \<Longrightarrow>
   remove_preset_loop self (before @ p # after) preset_name w =
     (map_sum id Some (fst (RemovePreset (ptz self) (profile_token self) (token p) (device w))),
      \<lparr>device = snd (RemovePreset (ptz self) (profile_token self) (token p) (device w)),
       calls = calls w @ [Call_RemovePreset (profile_token self) (token p)]\<rparr>)"
  by (induction before) (auto split: prod.splits)

lemma go_to_preset_loop_none:
  "\<forall>q \<in> set presets. str (Name q) \<noteq> preset_position \<Longrightarrow>
   go_to_preset_loop self presets preset_position w = (Inr None, w)"
  by (induction presets) auto

lemma go_to_preset_loop_first:
  "\<forall>q \<in> set before. str (Name q) \<noteq> preset_position \<Longrightarrow> str (Name p) = preset_position \<Longrightarrow>
   go_to_preset_loop self (before @ p # after) preset_position w =
     (map_sum id Some (fst (GotoPreset (ptz self) (profile_token self) (token p) (device w))),
      \<lparr>device = snd (GotoPreset (ptz self) (profile_token self) (token p) (device w)),
       calls = calls w @ [Call_GotoPreset (profile_token self) (token p)]\<rparr>)"
  by (induction before) (auto split: prod.splits)

lemma get_preset_complete_onvif_listed:
  "GetPresets (ptz self) (profile_token self) (device w) = (r, d) \<Longrightarrow>
   get_preset_complete_onvif self w =
     (r, \<lparr>device = d, calls = calls w @ [Call_GetPresets (profile_token self)]\<rparr>)"
  by (simp add: get_preset_complete_onvif_def)

lemma first_match:
  assumes "\<exists>q \<in> set presets. str (Name q) = n"
  obtains before p after where "presets = before @ p # after"
    and "\<forall>q \<in> set before. str (Name q) \<noteq> n" and "str (Name p) = n"
  using split_list_first_prop [OF assms] by blast

lemma keeps_created_list_device: "keeps_created list_device"
  by (auto simp add: keeps_created_def list_device_def Let_def)

text \<open>
  C6. \<^verbatim>\<open>ONVIFCamera.set_preset\<close>, when the list fetch returns \<open>presets\<close>: if the name of some
  entry equals the requested name, the call returns \<^verbatim>\<open>None\<close> and issues no \<^verbatim>\<open>SetPreset\<close>;
  if none does, it issues \<^verbatim>\<open>SetPreset\<close> with the given name and returns what that yields.
  The scan ends at a match, whatever follows it in the list. Consequently, on a device
  that lists what it created, a second \<^verbatim>\<open>set_preset\<close> of the same name right after a
  first one that returned issues only the list fetch, leaves the device as it is and
  returns \<^verbatim>\<open>None\<close>.
\<close>

theorem set_preset_existing:
  "(GetPresets (ptz self) (profile_token self) (device w) = (Inr presets, d) \<longrightarrow>
      ((\<exists>q \<in> set presets. str (Name q) = preset_name) \<longrightarrow>
         set_preset_onvif self preset_name w =
           (Inr None, \<lparr>device = d, calls = calls w @ [Call_GetPresets (profile_token self)]\<rparr>)) \<and>
      ((\<forall>q \<in> set presets. str (Name q) \<noteq> preset_name) \<longrightarrow>
         set_preset_onvif self preset_name w =
           (map_sum id Some (fst (SetPreset (ptz self) (profile_token self) preset_name d)),
            \<lparr>device = snd (SetPreset (ptz self) (profile_token self) preset_name d),
             calls = calls w @ [Call_GetPresets (profile_token self),
                                Call_SetPreset (profile_token self) preset_name]\<rparr>))) \<and>
   (str (Name p) = preset_name \<longrightarrow> set_preset_loop (before @ p # after) preset_name) \<and>
   (keeps_created (ptz self) \<and> set_preset_onvif self preset_name w = (Inr r1, w1) \<longrightarrow>
      set_preset_onvif self preset_name w1 =
        (Inr None, w1\<lparr>calls := calls w1 @ [Call_GetPresets (profile_token self)]\<rparr>))"
proof (intro conjI impI)
  assume listed: "GetPresets (ptz self) (profile_token self) (device w) = (Inr presets, d)"
  show "set_preset_onvif self preset_name w =
      (Inr None, \<lparr>device = d, calls = calls w @ [Call_GetPresets (profile_token self)]\<rparr>)"
    if "\<exists>q \<in> set presets. str (Name q) = preset_name"
    using that
    by (simp add: set_preset_onvif_def get_preset_complete_onvif_listed [OF listed] set_preset_loop_iff)
  show "set_preset_onvif self preset_name w =
      (map_sum id Some (fst (SetPreset (ptz self) (profile_token self) preset_name d)),
       \<lparr>device = snd (SetPreset (ptz self) (profile_token self) preset_name d),
        calls = calls w @ [Call_GetPresets (profile_token self),
                           Call_SetPreset (profile_token self) preset_name]\<rparr>)"
    if "\<forall>q \<in> set presets. str (Name q) \<noteq> preset_name"
    using that
    by (simp add: set_preset_onvif_def get_preset_complete_onvif_listed [OF listed] set_preset_loop_iff
          split: prod.splits)
next
  assume "str (Name p) = preset_name"
  then show "set_preset_loop (before @ p # after) preset_name"
    by (simp add: set_preset_loop_iff)
next
  assume both: "keeps_created (ptz self) \<and> set_preset_onvif self preset_name w = (Inr r1, w1)"
  then have keeps: "keeps_created (ptz self)"
    and first: "set_preset_onvif self preset_name w = (Inr r1, w1)"
    by simp_all
  let ?tok = "profile_token self"
  obtain l d where listed: "GetPresets (ptz self) ?tok (device w) = (l, d)"
    by (cases "GetPresets (ptz self) ?tok (device w)")
  from keeps have d: "d = device w"
    using listed by (metis keeps_created_def snd_conv)
  from first listed obtain presets where l: "l = Inr presets"
    by (cases l) (simp_all add: set_preset_onvif_def get_preset_complete_onvif_listed [OF listed])
  have "\<exists>presets1. GetPresets (ptz self) ?tok (device w1) = (Inr presets1, device w1) \<and>
          (\<exists>q \<in> set presets1. str (Name q) = preset_name)"
  proof (cases "set_preset_loop presets preset_name")
    case True
    with first have "w1 = \<lparr>device = d, calls = calls w @ [Call_GetPresets ?tok]\<rparr>"
      by (simp add: set_preset_onvif_def get_preset_complete_onvif_listed [OF listed] l)
    then have "device w1 = device w" by (simp add: d)
    with listed l d True show ?thesis
      by (auto simp add: set_preset_loop_iff)
  next
    case False
    obtain s d' where created: "SetPreset (ptz self) ?tok preset_name d = (s, d')"
      by (cases "SetPreset (ptz self) ?tok preset_name d")
    with first False obtain r where s: "s = Inr r" and w1: "device w1 = d'"
      by (cases s)
        (auto simp add: set_preset_onvif_def get_preset_complete_onvif_listed [OF listed] l)
    from keeps created s
    obtain presets1 q where again: "GetPresets (ptz self) ?tok d' = (Inr presets1, d')"
      and q: "q \<in> set presets1" and name: "Name q = Some preset_name"
      unfolding keeps_created_def by blast
    from name have "str (Name q) = preset_name"
      by (simp add: str_def)
    with q have "\<exists>q \<in> set presets1. str (Name q) = preset_name" ..
    with again w1 show ?thesis by simp
  qed
  then obtain presets1 where again: "GetPresets (ptz self) ?tok (device w1) = (Inr presets1, device w1)"
    and found: "\<exists>q \<in> set presets1. str (Name q) = preset_name"
    by blast
  from found show "set_preset_onvif self preset_name w1 =
      (Inr None, w1\<lparr>calls := calls w1 @ [Call_GetPresets ?tok]\<rparr>)"
    by (simp add: set_preset_onvif_def get_preset_complete_onvif_listed [OF again] set_preset_loop_iff)
qed

theorem set_preset_existing_witness:
  "set_preset_onvif \<lparr>ptz = list_device, profile_token = ''Profile_1''\<rparr> ''Gate''
     \<lparr>device = [\<lparr>Name = Some ''Door'', token = ''1''\<rparr>], calls = []\<rparr> =
   (Inr (Some ''tt''),
    \<lparr>device = [\<lparr>Name = Some ''Door'', token = ''1''\<rparr>, \<lparr>Name = Some ''Gate'', token = ''tt''\<rparr>],
     calls = [Call_GetPresets ''Profile_1'', Call_SetPreset ''Profile_1'' ''Gate'']\<rparr>) \<and>
   set_preset_onvif \<lparr>ptz = list_device, profile_token = ''Profile_1''\<rparr> ''Gate''
     \<lparr>device = [\<lparr>Name = Some ''Door'', token = ''1''\<rparr>, \<lparr>Name = Some ''Gate'', token = ''tt''\<rparr>],
      calls = [Call_GetPresets ''Profile_1'', Call_SetPreset ''Profile_1'' ''Gate'']\<rparr> =
   (Inr None,
    \<lparr>device = [\<lparr>Name = Some ''Door'', token = ''1''\<rparr>, \<lparr>Name = Some ''Gate'', token = ''tt''\<rparr>],
     calls = [Call_GetPresets ''Profile_1'', Call_SetPreset ''Profile_1'' ''Gate'',
              Call_GetPresets ''Profile_1'']\<rparr>)"
proof -
  let ?cam = "\<lparr>ptz = list_device, profile_token = ''Profile_1''\<rparr> :: (preset list, string, string) onvif_camera"
  let ?w0 = "\<lparr>device = [\<lparr>Name = Some ''Door'', token = ''1''\<rparr>], calls = []\<rparr> :: (preset list, string) soap_world"
  let ?w1 = "\<lparr>device = [\<lparr>Name = Some ''Door'', token = ''1''\<rparr>, \<lparr>Name = Some ''Gate'', token = ''tt''\<rparr>],
             calls = [Call_GetPresets ''Profile_1'', Call_SetPreset ''Profile_1'' ''Gate'']\<rparr> :: (preset list, string) soap_world"
  have first: "set_preset_onvif ?cam ''Gate'' ?w0 = (Inr (Some ''tt''), ?w1)"
    using set_preset_existing [where self = ?cam and preset_name = "''Gate''" and w = ?w0
        and presets = "[\<lparr>Name = Some ''Door'', token = ''1''\<rparr>]"
        and d = "[\<lparr>Name = Some ''Door'', token = ''1''\<rparr>]", THEN conjunct1]
    by (simp add: list_device_def str_def Let_def)
  have keeps: "keeps_created (ptz ?cam)"
    by (simp add: keeps_created_list_device)
  have "keeps_created (ptz ?cam) \<and> set_preset_onvif ?cam ''Gate'' ?w0 = (Inr (Some ''tt''), ?w1) \<longrightarrow>
      set_preset_onvif ?cam ''Gate'' ?w1 =
        (Inr None, ?w1\<lparr>calls := calls ?w1 @ [Call_GetPresets (profile_token ?cam)]\<rparr>)"
    by (rule set_preset_existing [where self = ?cam and preset_name = "''Gate''" and w = ?w0
        and ?r1.0 = "Some ''tt''" and ?w1.0 = ?w1, THEN conjunct2, THEN conjunct2])
  with keeps first
  have "set_preset_onvif ?cam ''Gate'' ?w1 =
        (Inr None, ?w1\<lparr>calls := calls ?w1 @ [Call_GetPresets (profile_token ?cam)]\<rparr>)"
    by blast
  with first show ?thesis by simp
qed

text \<open>
  C7. \<^verbatim>\<open>ONVIFCamera.remove_preset\<close> and \<^verbatim>\<open>ONVIFCamera.go_to_preset\<close>, when the list fetch
  returns \<open>presets\<close>: if no entry has the requested name, the call returns \<^verbatim>\<open>None\<close> and
  the list fetch is the only call made; if \<open>p\<close> is the first entry with that name, the
  operation is issued with the token of \<open>p\<close> and what it yields is returned; and a first
  such entry exists whenever some entry has the name.
\<close>

theorem preset_lookup:
  assumes "GetPresets (ptz self) (profile_token self) (device w) = (Inr presets, d)"
  shows "((\<forall>q \<in> set presets. str (Name q) \<noteq> preset_name) \<longrightarrow>
            remove_preset_onvif self preset_name w =
              (Inr None, \<lparr>device = d, calls = calls w @ [Call_GetPresets (profile_token self)]\<rparr>) \<and>
            go_to_preset_onvif self preset_name w =
              (Inr None, \<lparr>device = d, calls = calls w @ [Call_GetPresets (profile_token self)]\<rparr>)) \<and>
         (presets = before @ p # after \<and>
          (\<forall>q \<in> set before. str (Name q) \<noteq> preset_name) \<and> str (Name p) = preset_name \<longrightarrow>
            remove_preset_onvif self preset_name w =
              (map_sum id Some (fst (RemovePreset (ptz self) (profile_token self) (token p) d)),
               \<lparr>device = snd (RemovePreset (ptz self) (profile_token self) (token p) d),
                calls = calls w @ [Call_GetPresets (profile_token self),
                                   Call_RemovePreset (profile_token self) (token p)]\<rparr>) \<and>
            go_to_preset_onvif self preset_name w =
              (map_sum id Some (fst (GotoPreset (ptz self) (profile_token self) (token p) d)),
               \<lparr>device = snd (GotoPreset (ptz self) (profile_token self) (token p) d),
                calls = calls w @ [Call_GetPresets (profile_token self),
                                   Call_GotoPreset (profile_token self) (token p)]\<rparr>)) \<and>
         ((\<exists>q \<in> set presets. str (Name q) = preset_name) \<longrightarrow>
            (\<exists>before p after. presets = before @ p # after \<and>
               (\<forall>q \<in> set before. str (Name q) \<noteq> preset_name) \<and> str (Name p) = preset_name))"
proof (intro conjI impI)
  assume none: "\<forall>q \<in> set presets. str (Name q) \<noteq> preset_name"
  show "remove_preset_onvif self preset_name w =
      (Inr None, \<lparr>device = d, calls = calls w @ [Call_GetPresets (profile_token self)]\<rparr>)"
    by (simp add: remove_preset_onvif_def get_preset_complete_onvif_listed [OF assms]
          remove_preset_loop_none [OF none])
  show "go_to_preset_onvif self preset_name w =
      (Inr None, \<lparr>device = d, calls = calls w @ [Call_GetPresets (profile_token self)]\<rparr>)"
    by (simp add: go_to_preset_onvif_def get_preset_complete_onvif_listed [OF assms]
          go_to_preset_loop_none [OF none])
next
  assume first: "presets = before @ p # after \<and>
          (\<forall>q \<in> set before. str (Name q) \<noteq> preset_name) \<and> str (Name p) = preset_name"
  then have split: "presets = before @ p # after"
    and before: "\<forall>q \<in> set before. str (Name q) \<noteq> preset_name"
    and p: "str (Name p) = preset_name"
    by simp_all
  show "remove_preset_onvif self preset_name w =
      (map_sum id Some (fst (RemovePreset (ptz self) (profile_token self) (token p) d)),
       \<lparr>device = snd (RemovePreset (ptz self) (profile_token self) (token p) d),
        calls = calls w @ [Call_GetPresets (profile_token self),
                           Call_RemovePreset (profile_token self) (token p)]\<rparr>)"
    by (simp add: remove_preset_onvif_def get_preset_complete_onvif_listed [OF assms] split
          remove_preset_loop_first [OF before p])
  show "go_to_preset_onvif self preset_name w =
      (map_sum id Some (fst (GotoPreset (ptz self) (profile_token self) (token p) d)),
       \<lparr>device = snd (GotoPreset (ptz self) (profile_token self) (token p) d),
        calls = calls w @ [Call_GetPresets (profile_token self),
                           Call_GotoPreset (profile_token self) (token p)]\<rparr>)"
    by (simp add: go_to_preset_onvif_def get_preset_complete_onvif_listed [OF assms] split
          go_to_preset_loop_first [OF before p])
next
  assume "\<exists>q \<in> set presets. str (Name q) = preset_name"
  then show "\<exists>before p after. presets = before @ p # after \<and>
      (\<forall>q \<in> set before. str (Name q) \<noteq> preset_name) \<and> str (Name p) = preset_name"
    by (rule first_match) blast
qed

lemma three_presets_listed:
  "GetPresets (ptz \<lparr>ptz = list_device, profile_token = ''Profile_1''\<rparr>)
     (profile_token \<lparr>ptz = list_device, profile_token = ''Profile_1''\<rparr>)
     (device \<lparr>device = [\<lparr>Name = Some ''Door'', token = ''1''\<rparr>, \<lparr>Name = Some ''Gate'', token = ''2''\<rparr>,
                        \<lparr>Name = Some ''Gate'', token = ''3''\<rparr>],
              calls = []\<rparr>) =
   (Inr [\<lparr>Name = Some ''Door'', token = ''1''\<rparr>, \<lparr>Name = Some ''Gate'', token = ''2''\<rparr>,
         \<lparr>Name = Some ''Gate'', token = ''3''\<rparr>],
    [\<lparr>Name = Some ''Door'', token = ''1''\<rparr>, \<lparr>Name = Some ''Gate'', token = ''2''\<rparr>,
     \<lparr>Name = Some ''Gate'', token = ''3''\<rparr>])"
  by (simp add: list_device_def)

theorem preset_lookup_witness:
  "remove_preset_onvif \<lparr>ptz = list_device, profile_token = ''Profile_1''\<rparr> ''Gate''
     \<lparr>device = [\<lparr>Name = Some ''Door'', token = ''1''\<rparr>, \<lparr>Name = Some ''Gate'', token = ''2''\<rparr>,
                \<lparr>Name = Some ''Gate'', token = ''3''\<rparr>],
      calls = []\<rparr> =
     (Inr (Some ''removed''),
      \<lparr>device = [\<lparr>Name = Some ''Door'', token = ''1''\<rparr>, \<lparr>Name = Some ''Gate'', token = ''3''\<rparr>],
       calls = [Call_GetPresets ''Profile_1'', Call_RemovePreset ''Profile_1'' ''2'']\<rparr>) \<and>
   go_to_preset_onvif \<lparr>ptz = list_device, profile_token = ''Profile_1''\<rparr> ''Yard''
     \<lparr>device = [\<lparr>Name = Some ''Door'', token = ''1''\<rparr>, \<lparr>Name = Some ''Gate'', token = ''2''\<rparr>,
                \<lparr>Name = Some ''Gate'', token = ''3''\<rparr>],
      calls = []\<rparr> =
     (Inr None,
      \<lparr>device = [\<lparr>Name = Some ''Door'', token = ''1''\<rparr>, \<lparr>Name = Some ''Gate'', token = ''2''\<rparr>,
                 \<lparr>Name = Some ''Gate'', token = ''3''\<rparr>],
       calls = [Call_GetPresets ''Profile_1'']\<rparr>)"
  using
    preset_lookup [OF three_presets_listed, where preset_name = "''Gate''"
      and before = "[\<lparr>Name = Some ''Door'', token = ''1''\<rparr>]"
      and p = "\<lparr>Name = Some ''Gate'', token = ''2''\<rparr>"
      and after = "[\<lparr>Name = Some ''Gate'', token = ''3''\<rparr>]"]
    preset_lookup [OF three_presets_listed, where preset_name = "''Yard''"
      and before = "[]" and p = "\<lparr>Name = Some ''Door'', token = ''1''\<rparr>"
      and after = "[\<lparr>Name = Some ''Gate'', token = ''2''\<rparr>, \<lparr>Name = Some ''Gate'', token = ''3''\<rparr>]"]
  by (simp add: list_device_def str_def)

end
